theory Spec2Isabelle
  imports Main "HOL-Library.Word"
begin

unbundle bit_operations_syntax

section \<open>The govc command vm.customize (govc/vm/customize.go)\<close>

text \<open>
  The command maps its flags onto a guest customization specification and submits it.
  The model follows \<^verbatim>\<open>Run\<close> line by line. Calls into the client library (the
  virtual machine handle, the customization spec manager, the task) are the fields of an
  environment record; every early \<^verbatim>\<open>return err\<close> and every run-time panic is a value of
  a sum type; the calls made and the adapter slots written are recorded in a log, so that
  "nothing was submitted" is a statement about that log.
\<close>

subsection \<open>Types of vim25/types that the command reads or writes\<close>

text \<open>
  Only the fields that \<^verbatim>\<open>Run\<close> touches are kept. An interface value is a datatype with
  one constructor for each dynamic type the command tells apart and one for all others;
  a nil interface or pointer field is \<open>None\<close>. A nil slice and an empty slice are both
  the empty list.
\<close>

datatype BaseCustomizationName =
    CustomizationVirtualMachineName
  | CustomizationPrefixName string
  | CustomizationFixedName string
  | CustomizationOtherName

datatype BaseCustomizationIpGenerator =
    CustomizationDhcpIpGenerator
  | CustomizationFixedIp string
  | CustomizationOtherIpGenerator

record CustomizationIPSettings =
  Ip :: "BaseCustomizationIpGenerator option"
  SubnetMask :: string
  Gateway :: "string list"
  DnsServerList :: "string list"

record CustomizationAdapterMapping =
  MacAddress :: string
  Adapter :: CustomizationIPSettings

record CustomizationGuiUnattended =
  AutoLogon :: bool
  AutoLogonCount :: "32 word"
  TimeZone :: "32 word"

record CustomizationUserData =
  ComputerName :: "BaseCustomizationName option"

record CustomizationIdentification =
  JoinDomain :: string

record CustomizationSysprep =
  GuiUnattended :: CustomizationGuiUnattended
  UserData :: CustomizationUserData
  Identification :: CustomizationIdentification

record CustomizationLinuxPrep =
  HostName :: "BaseCustomizationName option"
  Domain_linux :: string
  TimeZone_linux :: string

text \<open>
  \<open>OtherIdentity\<close> stands for every identity that is neither a
  \<^verbatim>\<open>*CustomizationSysprep\<close> nor a \<^verbatim>\<open>*CustomizationLinuxPrep\<close> (another identity type of
  the API, or a nil interface): both type assertions of \<^verbatim>\<open>Run\<close> fail on it. The two
  other constructors carry the struct the pointer refers to; an interface holding a nil
  pointer of one of the two types is not modelled.
\<close>

datatype BaseCustomizationIdentitySettings =
    Sysprep CustomizationSysprep
  | LinuxPrep CustomizationLinuxPrep
  | OtherIdentity

record CustomizationGlobalIPSettings =
  DnsServerList_global :: "string list"

record CustomizationSpec =
  Identity :: BaseCustomizationIdentitySettings
  GlobalIPSettings :: CustomizationGlobalIPSettings
  NicSettingMap :: "CustomizationAdapterMapping list"

subsection \<open>Errors, panics and the log\<close>

datatype num_err = ErrSyntax | ErrRange

text \<open>\<^verbatim>\<open>strconv.NumError{Func, Num, Err}\<close>\<close>

datatype NumError = NumError string string num_err

text \<open>
  \<^verbatim>\<open>fmt.Errorf(format, args...)\<close> is kept as the format string with its arguments, so that
  "the error contains the name and the counts" is a statement about the arguments.
  \<open>LibraryError\<close> is any error value produced by the client library.
\<close>

datatype fmt_arg = ArgInt int | ArgString string | ArgError NumError

datatype error = ErrHelp | Errorf string "fmt_arg list" | LibraryError string

datatype panic = NilPointerDereference | IndexOutOfRange

datatype abort = Fail error | Panic panic

type_synonym VirtualMachine = nat
type_synonym Task = nat

datatype event =
    Call_DoesCustomizationSpecExist string
  | Call_GetCustomizationSpec string
  | Write_NicSettingMap nat
  | Call_Customize CustomizationSpec
  | Call_Wait Task

datatype outcome = Returned "error option" | Panicked panic

subsection \<open>The command's fields and the library it calls\<close>

text \<open>
  \<open>alc\<close> is a Go \<^verbatim>\<open>int\<close> (64 bits on the 64-bit platforms govc is built for);
  \<open>prefix_Base\<close> is \<^verbatim>\<open>cmd.prefix.Base\<close> and \<open>host_Name\<close> is \<^verbatim>\<open>cmd.host.Name\<close>.
\<close>

record customize =
  alc :: "64 word"
  prefix_Base :: string
  tz :: string
  domain :: string
  host_Name :: string
  mac :: "string list"
  ip :: "string list"
  gateway :: "string list"
  netmask :: "string list"
  dnsserver :: "string list"
  kind :: string

text \<open>The values \<^verbatim>\<open>Register\<close> leaves in the fields before any flag is parsed.\<close>

definition Register :: customize where
  "Register = \<lparr> alc = 0, prefix_Base = [], tz = [], domain = [], host_Name = [],
      mac = [], ip = [], gateway = [], netmask = [], dnsserver = [], kind = ''Linux'' \<rparr>"

text \<open>
  The collaborators: \<^verbatim>\<open>cmd.VirtualMachineFlag.VirtualMachine()\<close> (a nil machine is
  \<open>Inr None\<close>), the two calls on the customization spec manager (the second one returns
  \<^verbatim>\<open>item.Spec\<close>), \<^verbatim>\<open>vm.Customize\<close> and \<^verbatim>\<open>task.Wait\<close>.
\<close>

record env =
  VirtualMachine :: "error + VirtualMachine option"
  DoesCustomizationSpecExist :: "string \<Rightarrow> error + bool"
  GetCustomizationSpec :: "string \<Rightarrow> error + CustomizationSpec"
  Customize :: "CustomizationSpec \<Rightarrow> error + Task"
  Wait :: "Task \<Rightarrow> error option"

subsection \<open>Standard library: strings.Split and strconv.ParseInt\<close>

text \<open>
  \<^verbatim>\<open>strings.Split(s, sep)\<close> for a one-byte separator: the pieces of \<open>s\<close> between the
  separators, one piece more than there are separators (so \<open>[[]]\<close> for the empty string).
\<close>

fun Split :: "string \<Rightarrow> char \<Rightarrow> string list" where
  "Split [] sep = [[]]"
| "Split (c # cs) sep =
     (if c = sep then [] # Split cs sep
      else (case Split cs sep of [] \<Rightarrow> [[c]] | p # ps \<Rightarrow> (c # p) # ps))"

text \<open>
  \<^verbatim>\<open>strconv.ParseUint(s, base, bitSize)\<close> for a base from 2 to 36 given explicitly (no
  prefix and no underscores are accepted then) and a bit size from 1 to 64. It returns
  the value together with the error, as the Go function does. Go computes in
  \<^verbatim>\<open>uint64\<close>: \<^verbatim>\<open>n * base\<close> cannot wrap once \<^verbatim>\<open>n < cutoff\<close>, and the test \<^verbatim>\<open>n1 < n\<close> for a
  wrap of \<^verbatim>\<open>n + d\<close> is, on natural numbers, \<open>n1 > maxUint64\<close>.
\<close>

definition byte :: "char \<Rightarrow> 8 word" where
  "byte c = of_char c"

definition lower :: "char \<Rightarrow> 8 word" where
  "lower c = byte c OR 0x20"

definition digit :: "char \<Rightarrow> 8 word option" where
  "digit c =
     (if byte (CHR ''0'') \<le> byte c \<and> byte c \<le> byte (CHR ''9'') then Some (byte c - byte (CHR ''0''))
      else if byte (CHR ''a'') \<le> lower c \<and> lower c \<le> byte (CHR ''z'')
        then Some (lower c - byte (CHR ''a'') + 10)
      else None)"

definition maxUint64 :: nat where
  "maxUint64 = 2 ^ 64 - 1"

fun ParseUint_loop :: "nat \<Rightarrow> nat \<Rightarrow> nat \<Rightarrow> string \<Rightarrow> nat \<times> num_err option" where
  "ParseUint_loop base maxVal n [] = (n, None)"
| "ParseUint_loop base maxVal n (c # cs) =
     (case digit c of
        None \<Rightarrow> (0, Some ErrSyntax)
      | Some d \<Rightarrow>
          if unat d \<ge> base then (0, Some ErrSyntax)
          else if n \<ge> maxUint64 div base + 1 then (maxVal, Some ErrRange)
          else
            (let n1 = n * base + unat d in
             if n1 > maxUint64 \<or> n1 > maxVal then (maxVal, Some ErrRange)
             else ParseUint_loop base maxVal n1 cs))"

definition ParseUint :: "string \<Rightarrow> nat \<Rightarrow> nat \<Rightarrow> nat \<times> num_err option" where
  "ParseUint s base bitSize =
     (if s = [] then (0, Some ErrSyntax)
      else ParseUint_loop base (2 ^ bitSize - 1) 0 s)"

text \<open>\<^verbatim>\<open>strconv.ParseInt(s, base, bitSize)\<close>, under the same restrictions.\<close>

definition ParseInt :: "string \<Rightarrow> nat \<Rightarrow> nat \<Rightarrow> NumError + int" where
  "ParseInt s0 base bitSize =
     (if s0 = [] then Inl (NumError ''ParseInt'' s0 ErrSyntax)
      else
        (let neg = (hd s0 = CHR ''-'');
             s = (if hd s0 = CHR ''+'' \<or> hd s0 = CHR ''-'' then tl s0 else s0);
             (un, err) = ParseUint s base bitSize;
             cutoff = (2::nat) ^ (bitSize - 1)
         in if err = Some ErrSyntax then Inl (NumError ''ParseInt'' s0 ErrSyntax)
            else if \<not> neg \<and> un \<ge> cutoff then Inl (NumError ''ParseInt'' s0 ErrRange)
            else if neg \<and> un > cutoff then Inl (NumError ''ParseInt'' s0 ErrRange)
            else Inr (if neg then - int un else int un)))"

subsection \<open>Run, lines 113 to 150: the specification to customize\<close>

definition new_adapter_mapping :: CustomizationAdapterMapping where
  "new_adapter_mapping =
     \<lparr> MacAddress = [],
       Adapter = \<lparr> Ip = None, SubnetMask = [], Gateway = [], DnsServerList = [] \<rparr> \<rparr>"

definition new_linux_prep :: CustomizationLinuxPrep where
  "new_linux_prep =
     \<lparr> HostName = Some CustomizationVirtualMachineName, Domain_linux = [],
       TimeZone_linux = [] \<rparr>"

definition new_sysprep :: CustomizationSysprep where
  "new_sysprep =
     \<lparr> GuiUnattended = \<lparr> AutoLogon = False, AutoLogonCount = 0, TimeZone = 0 \<rparr>,
       UserData = \<lparr> ComputerName = Some CustomizationVirtualMachineName \<rparr>,
       Identification = \<lparr> JoinDomain = [] \<rparr> \<rparr>"

text \<open>No NAME argument: a new specification with one adapter slot for each \<^verbatim>\<open>-ip\<close>.\<close>

definition new_spec :: "customize \<Rightarrow> error + CustomizationSpec" where
  "new_spec cmd =
     (let nics = replicate (length (ip cmd)) new_adapter_mapping;
          global = \<lparr> DnsServerList_global = [] \<rparr>
      in if kind cmd = ''Linux''
           then Inr \<lparr> Identity = LinuxPrep new_linux_prep, GlobalIPSettings = global,
                      NicSettingMap = nics \<rparr>
         else if kind cmd = ''Windows''
           then Inr \<lparr> Identity = Sysprep new_sysprep, GlobalIPSettings = global,
                      NicSettingMap = nics \<rparr>
         else Inl ErrHelp)"

text \<open>A NAME argument: the specification stored under that name.\<close>

definition lookup_spec :: "env \<Rightarrow> string \<Rightarrow> event list \<times> (error + CustomizationSpec)" where
  "lookup_spec e name =
     (case DoesCustomizationSpecExist e name of
        Inl err \<Rightarrow> ([Call_DoesCustomizationSpecExist name], Inl err)
      | Inr exists \<Rightarrow>
          if \<not> exists
            then ([Call_DoesCustomizationSpecExist name],
                  Inl (Errorf ''specification %q does not exist'' [ArgString name]))
          else
            (case GetCustomizationSpec e name of
               Inl err \<Rightarrow>
                 ([Call_DoesCustomizationSpecExist name, Call_GetCustomizationSpec name],
                  Inl err)
             | Inr spec \<Rightarrow>
                 ([Call_DoesCustomizationSpecExist name, Call_GetCustomizationSpec name],
                  Inr spec)))"

definition resolve_spec ::
  "env \<Rightarrow> customize \<Rightarrow> string \<Rightarrow> event list \<times> (error + CustomizationSpec)" where
  "resolve_spec e cmd name =
     (if name = [] then ([], new_spec cmd) else lookup_spec e name)"

subsection \<open>Run, lines 152 to 210: the count check and the general settings\<close>

definition check_ip_count :: "customize \<Rightarrow> string \<Rightarrow> CustomizationSpec \<Rightarrow> error option" where
  "check_ip_count cmd name spec =
     (if length (ip cmd) > length (NicSettingMap spec)
        then Some (Errorf ''%d -ip specified, spec %q has %d''
               [ArgInt (int (length (ip cmd))), ArgString name,
                ArgInt (int (length (NicSettingMap spec)))])
      else None)"

text \<open>
  \<^verbatim>\<open>sysprep, isWindows := spec.Identity.(*types.CustomizationSysprep)\<close> and
  \<^verbatim>\<open>linprep, _ := spec.Identity.(*types.CustomizationLinuxPrep)\<close>: \<open>isWindows\<close> holds for
  a \<open>Sysprep\<close> identity only, and \<open>linprep\<close> is nil unless the identity is a
  \<open>LinuxPrep\<close>. Each setting below writes through \<open>sysprep\<close> when \<open>isWindows\<close> and
  through \<open>linprep\<close> otherwise; writing through the nil \<open>linprep\<close> panics.
\<close>

definition isWindows :: "BaseCustomizationIdentitySettings \<Rightarrow> bool" where
  "isWindows idn = (case idn of Sysprep s \<Rightarrow> True | _ \<Rightarrow> False)"

definition set_domain ::
  "customize \<Rightarrow> BaseCustomizationIdentitySettings \<Rightarrow> abort + BaseCustomizationIdentitySettings" where
  "set_domain cmd idn =
     (if domain cmd \<noteq> [] then
        (case idn of
           Sysprep s \<Rightarrow>
             Inr (Sysprep (s\<lparr>Identification := (Identification s)\<lparr>JoinDomain := domain cmd\<rparr>\<rparr>))
         | LinuxPrep l \<Rightarrow> Inr (LinuxPrep (l\<lparr>Domain_linux := domain cmd\<rparr>))
         | OtherIdentity \<Rightarrow> Inl (Panic NilPointerDereference))
      else Inr idn)"

definition set_dns :: "customize \<Rightarrow> bool \<Rightarrow> CustomizationGlobalIPSettings \<Rightarrow> CustomizationGlobalIPSettings" where
  "set_dns cmd isWin g =
     (if length (dnsserver cmd) \<noteq> 0 then
        (if \<not> isWin then
           foldl (\<lambda>g s. g\<lparr>DnsServerList_global := DnsServerList_global g @ Split s (CHR '','')\<rparr>)
             g (dnsserver cmd)
         else g)
      else g)"

definition set_prefix ::
  "customize \<Rightarrow> BaseCustomizationIdentitySettings \<Rightarrow> abort + BaseCustomizationIdentitySettings" where
  "set_prefix cmd idn =
     (if prefix_Base cmd \<noteq> [] then
        (case idn of
           Sysprep s \<Rightarrow>
             Inr (Sysprep (s\<lparr>UserData := (UserData s)
                    \<lparr>ComputerName := Some (CustomizationPrefixName (prefix_Base cmd))\<rparr>\<rparr>))
         | LinuxPrep l \<Rightarrow>
             Inr (LinuxPrep (l\<lparr>HostName := Some (CustomizationPrefixName (prefix_Base cmd))\<rparr>))
         | OtherIdentity \<Rightarrow> Inl (Panic NilPointerDereference))
      else Inr idn)"

definition set_host ::
  "customize \<Rightarrow> BaseCustomizationIdentitySettings \<Rightarrow> abort + BaseCustomizationIdentitySettings" where
  "set_host cmd idn =
     (if host_Name cmd \<noteq> [] then
        (case idn of
           Sysprep s \<Rightarrow>
             Inr (Sysprep (s\<lparr>UserData := (UserData s)
                    \<lparr>ComputerName := Some (CustomizationFixedName (host_Name cmd))\<rparr>\<rparr>))
         | LinuxPrep l \<Rightarrow>
             Inr (LinuxPrep (l\<lparr>HostName := Some (CustomizationFixedName (host_Name cmd))\<rparr>))
         | OtherIdentity \<Rightarrow> Inl (Panic NilPointerDereference))
      else Inr idn)"

text \<open>\<^verbatim>\<open>int32(cmd.alc)\<close> keeps the low 32 bits of the 64-bit value.\<close>

definition set_alc ::
  "customize \<Rightarrow> BaseCustomizationIdentitySettings \<Rightarrow> abort + BaseCustomizationIdentitySettings" where
  "set_alc cmd idn =
     (if alc cmd \<noteq> 0 then
        (case idn of
           Sysprep s \<Rightarrow>
             Inr (Sysprep (s\<lparr>GuiUnattended := (GuiUnattended s)
                    \<lparr>AutoLogon := True, AutoLogonCount := ucast (alc cmd)\<rparr>\<rparr>))
         | _ \<Rightarrow> Inl (Fail (Errorf ''option '-auto-login' is Windows only'' [])))
      else Inr idn)"

definition set_tz ::
  "customize \<Rightarrow> BaseCustomizationIdentitySettings \<Rightarrow> abort + BaseCustomizationIdentitySettings" where
  "set_tz cmd idn =
     (if tz cmd \<noteq> [] then
        (case idn of
           Sysprep s \<Rightarrow>
             (case ParseInt (tz cmd) 16 32 of
                Inl err \<Rightarrow>
                  Inl (Fail (Errorf ''converting -tz=%q: %s'' [ArgString (tz cmd), ArgError err]))
              | Inr v \<Rightarrow>
                  Inr (Sysprep (s\<lparr>GuiUnattended := (GuiUnattended s)\<lparr>TimeZone := word_of_int v\<rparr>\<rparr>)))
         | LinuxPrep l \<Rightarrow> Inr (LinuxPrep (l\<lparr>TimeZone_linux := tz cmd\<rparr>))
         | OtherIdentity \<Rightarrow> Inl (Panic NilPointerDereference))
      else Inr idn)"

text \<open>Lines 159 to 210 in the order of the source; the first failure ends the command.\<close>

definition general_settings :: "customize \<Rightarrow> CustomizationSpec \<Rightarrow> abort + CustomizationSpec" where
  "general_settings cmd spec =
     (case set_domain cmd (Identity spec) of Inl a \<Rightarrow> Inl a | Inr i1 \<Rightarrow>
        (let g = set_dns cmd (isWindows (Identity spec)) (GlobalIPSettings spec) in
         case set_prefix cmd i1 of Inl a \<Rightarrow> Inl a | Inr i2 \<Rightarrow>
         case set_host cmd i2 of Inl a \<Rightarrow> Inl a | Inr i3 \<Rightarrow>
         case set_alc cmd i3 of Inl a \<Rightarrow> Inl a | Inr i4 \<Rightarrow>
         case set_tz cmd i4 of Inl a \<Rightarrow> Inl a | Inr i5 \<Rightarrow>
           Inr (spec\<lparr>Identity := i5, GlobalIPSettings := g\<rparr>)))"

subsection \<open>Run, lines 212 to 235: the loop over the -ip values\<close>

definition set_nic ::
  "customize \<Rightarrow> bool \<Rightarrow> nat \<Rightarrow> string \<Rightarrow> CustomizationAdapterMapping \<Rightarrow> CustomizationAdapterMapping" where
  "set_nic cmd isWin i ipv nic =
     (let nic1 = nic\<lparr>Adapter := (Adapter nic)
                   \<lparr>Ip := Some (if ipv = ''dhcp'' then CustomizationDhcpIpGenerator
                                else CustomizationFixedIp ipv)\<rparr>\<rparr>;
          nic2 = (if i < length (netmask cmd)
                  then nic1\<lparr>Adapter := (Adapter nic1)\<lparr>SubnetMask := netmask cmd ! i\<rparr>\<rparr>
                  else nic1);
          nic3 = (if i < length (mac cmd) then nic2\<lparr>MacAddress := mac cmd ! i\<rparr> else nic2);
          nic4 = (if i < length (gateway cmd)
                  then nic3\<lparr>Adapter := (Adapter nic3)\<lparr>Gateway := Split (gateway cmd ! i) (CHR '','')\<rparr>\<rparr>
                  else nic3)
      in if isWin then
           (if i < length (dnsserver cmd)
            then nic4\<lparr>Adapter := (Adapter nic4)
                   \<lparr>DnsServerList := Split (dnsserver cmd ! i) (CHR '','')\<rparr>\<rparr>
            else nic4)
         else nic4)"

text \<open>
  \<open>nic_loop cmd isWin i ips nics\<close> is the loop from index \<open>i\<close> on, \<open>ips\<close> being the
  \<^verbatim>\<open>-ip\<close> values from that index. \<^verbatim>\<open>&spec.NicSettingMap[i]\<close> panics when the slot does
  not exist.
\<close>

fun nic_loop ::
  "customize \<Rightarrow> bool \<Rightarrow> nat \<Rightarrow> string list \<Rightarrow> CustomizationAdapterMapping list
     \<Rightarrow> event list \<times> (abort + CustomizationAdapterMapping list)" where
  "nic_loop cmd isWin i [] nics = ([], Inr nics)"
| "nic_loop cmd isWin i (ipv # ips) nics =
     (if i < length nics then
        (case nic_loop cmd isWin (Suc i) ips (nics[i := set_nic cmd isWin i ipv (nics ! i)]) of
           (log, r) \<Rightarrow> (Write_NicSettingMap i # log, r))
      else ([], Inl (Panic IndexOutOfRange)))"

subsection \<open>Run\<close>

text \<open>Lines 152 to 235: everything between resolving the specification and submitting it.\<close>

definition customize_spec ::
  "customize \<Rightarrow> string \<Rightarrow> CustomizationSpec \<Rightarrow> event list \<times> (abort + CustomizationSpec)" where
  "customize_spec cmd name spec =
     (case check_ip_count cmd name spec of
        Some err \<Rightarrow> ([], Inl (Fail err))
      | None \<Rightarrow>
          (case general_settings cmd spec of
             Inl a \<Rightarrow> ([], Inl a)
           | Inr spec1 \<Rightarrow>
               (case nic_loop cmd (isWindows (Identity spec)) 0 (ip cmd) (NicSettingMap spec1) of
                  (log, Inl a) \<Rightarrow> (log, Inl a)
                | (log, Inr nics) \<Rightarrow> (log, Inr (spec1\<lparr>NicSettingMap := nics\<rparr>)))))"

text \<open>Lines 237 to 242: submit the specification and wait for the task.\<close>

definition submit :: "env \<Rightarrow> CustomizationSpec \<Rightarrow> event list \<times> outcome" where
  "submit e spec =
     (case Customize e spec of
        Inl err \<Rightarrow> ([Call_Customize spec], Returned (Some err))
      | Inr task \<Rightarrow> ([Call_Customize spec, Call_Wait task], Returned (Wait e task)))"

text \<open>\<open>name\<close> is \<^verbatim>\<open>f.Arg(0)\<close>, the empty string when no NAME is given.\<close>

definition Run :: "env \<Rightarrow> customize \<Rightarrow> string \<Rightarrow> event list \<times> outcome" where
  "Run e cmd name =
     (case VirtualMachine e of
        Inl err \<Rightarrow> ([], Returned (Some err))
      | Inr None \<Rightarrow> ([], Returned (Some ErrHelp))
      | Inr (Some vm) \<Rightarrow>
          (case resolve_spec e cmd name of
             (log1, Inl err) \<Rightarrow> (log1, Returned (Some err))
           | (log1, Inr spec) \<Rightarrow>
               (case customize_spec cmd name spec of
                  (log2, Inl (Fail err)) \<Rightarrow> (log1 @ log2, Returned (Some err))
                | (log2, Inl (Panic p)) \<Rightarrow> (log1 @ log2, Panicked p)
                | (log2, Inr spec') \<Rightarrow>
                    (case submit e spec' of (log3, r) \<Rightarrow> (log1 @ log2 @ log3, r)))))"

text \<open>What the log says about submission and about the adapter slots written.\<close>

fun submitted :: "event list \<Rightarrow> CustomizationSpec list" where
  "submitted [] = []"
| "submitted (Call_Customize s # log) = s # submitted log"
| "submitted (ev # log) = submitted log"

fun nic_writes :: "event list \<Rightarrow> nat list" where
  "nic_writes [] = []"
| "nic_writes (Write_NicSettingMap i # log) = i # nic_writes log"
| "nic_writes (ev # log) = nic_writes log"

subsection \<open>A sample environment for the worked examples\<close>

definition linux_template :: CustomizationSpec where
  "linux_template =
     \<lparr> Identity = LinuxPrep \<lparr> HostName = Some CustomizationOtherName,
                               Domain_linux = ''corp.example'', TimeZone_linux = ''UTC'' \<rparr>,
       GlobalIPSettings = \<lparr> DnsServerList_global = [''1.1.1.1''] \<rparr>,
       NicSettingMap =
         [\<lparr> MacAddress = ''00:50:56:aa:bb:cc'',
            Adapter = \<lparr> Ip = Some CustomizationOtherIpGenerator, SubnetMask = ''255.255.0.0'',
                        Gateway = [''10.0.0.1''], DnsServerList = [''9.9.9.9''] \<rparr> \<rparr>] \<rparr>"

definition windows_template :: CustomizationSpec where
  "windows_template = linux_template\<lparr>Identity := Sysprep new_sysprep\<rparr>"

definition other_template :: CustomizationSpec where
  "other_template = linux_template\<lparr>Identity := OtherIdentity\<rparr>"

definition sample_env :: env where
  "sample_env =
     \<lparr> VirtualMachine = Inr (Some 0),
       DoesCustomizationSpecExist = (\<lambda>n.
         if n = ''unreachable'' then Inl (LibraryError ''connection reset'')
         else Inr (n \<in> set [''linux'', ''windows'', ''other'', ''vanishing''])),
       GetCustomizationSpec = (\<lambda>n.
         if n = ''linux'' then Inr linux_template
         else if n = ''windows'' then Inr windows_template
         else if n = ''other'' then Inr other_template
         else Inl (LibraryError ''not found'')),
       Customize = (\<lambda>s. Inr 7),
       Wait = (\<lambda>t. None) \<rparr>"

section \<open>Auxiliary facts\<close>

subsection \<open>The log\<close>

lemma submitted_append: "submitted (xs @ ys) = submitted xs @ submitted ys"
  by (induction xs rule: submitted.induct) simp_all

lemma nic_writes_append: "nic_writes (xs @ ys) = nic_writes xs @ nic_writes ys"
  by (induction xs rule: nic_writes.induct) simp_all

lemma log_of_writes:
  "submitted (map Write_NicSettingMap is) = []" "nic_writes (map Write_NicSettingMap is) = is"
  by (induction "is") simp_all

lemma resolve_spec_log:
  "nic_writes (fst (resolve_spec e cmd name)) = []" "submitted (fst (resolve_spec e cmd name)) = []"
  by (simp_all add: resolve_spec_def lookup_spec_def split: sum.splits)

lemma submit_log:
  "submitted (fst (submit e spec)) = [spec]" "nic_writes (fst (submit e spec)) = []"
  by (simp_all add: submit_def split: sum.splits)

subsection \<open>The loop over the -ip values\<close>

lemma set_nic_Ip:
  "Ip (Adapter (set_nic cmd w i ipv nic)) =
     Some (if ipv = ''dhcp'' then CustomizationDhcpIpGenerator else CustomizationFixedIp ipv)"
  by (simp add: set_nic_def Let_def)

lemma set_nic_SubnetMask:
  "SubnetMask (Adapter (set_nic cmd w i ipv nic)) =
     (if i < length (netmask cmd) then netmask cmd ! i else SubnetMask (Adapter nic))"
  by (simp add: set_nic_def Let_def)

lemma set_nic_MacAddress:
  "MacAddress (set_nic cmd w i ipv nic) =
     (if i < length (mac cmd) then mac cmd ! i else MacAddress nic)"
  by (simp add: set_nic_def Let_def)

lemma set_nic_Gateway:
  "Gateway (Adapter (set_nic cmd w i ipv nic)) =
     (if i < length (gateway cmd) then Split (gateway cmd ! i) (CHR '','')
      else Gateway (Adapter nic))"
  by (simp add: set_nic_def Let_def)

lemma set_nic_DnsServerList:
  "DnsServerList (Adapter (set_nic cmd w i ipv nic)) =
     (if w \<and> i < length (dnsserver cmd) then Split (dnsserver cmd ! i) (CHR '','')
      else DnsServerList (Adapter nic))"
  by (simp add: set_nic_def Let_def)

lemma nic_loop_writes:
  "nic_writes (fst (nic_loop cmd w i ips nics)) = [i..<min (i + length ips) (length nics)]"
proof (induction ips arbitrary: i nics)
  case Nil
  then show ?case by simp
next
  case (Cons ipv ips)
  show ?case
  proof (cases "i < length nics")
    case True
    let ?nics = "nics[i := set_nic cmd w i ipv (nics ! i)]"
    have "nic_writes (fst (nic_loop cmd w i (ipv # ips) nics)) =
            i # nic_writes (fst (nic_loop cmd w (Suc i) ips ?nics))"
      using True by (simp add: case_prod_beta)
    also have "\<dots> = i # [Suc i..<min (Suc i + length ips) (length ?nics)]"
      by (simp only: Cons.IH)
    also have "\<dots> = [i..<min (i + length (ipv # ips)) (length nics)]"
      using True by (simp add: upt_conv_Cons)
    finally show ?thesis .
  next
    case False
    then show ?thesis by simp
  qed
qed

lemma nic_loop_result:
  "i + length ips \<le> length nics \<Longrightarrow>
   \<exists>nics'. snd (nic_loop cmd w i ips nics) = Inr nics' \<and> length nics' = length nics \<and>
     (\<forall>j<length nics. nics' ! j =
        (if i \<le> j \<and> j < i + length ips then set_nic cmd w j (ips ! (j - i)) (nics ! j)
         else nics ! j))"
proof (induction ips arbitrary: i nics)
  case Nil
  then show ?case by auto
next
  case (Cons ipv ips)
  let ?nics = "nics[i := set_nic cmd w i ipv (nics ! i)]"
  from Cons.prems have lt: "i < length nics" and le: "Suc i + length ips \<le> length ?nics"
    by simp_all
  from Cons.IH [OF le] obtain nics' where
    r: "snd (nic_loop cmd w (Suc i) ips ?nics) = Inr nics'" and
    len: "length nics' = length nics" and
    nth: "\<forall>j<length nics. nics' ! j =
        (if Suc i \<le> j \<and> j < Suc i + length ips
         then set_nic cmd w j (ips ! (j - Suc i)) (?nics ! j) else ?nics ! j)"
    by auto
  have "snd (nic_loop cmd w i (ipv # ips) nics) = Inr nics'"
    using lt r by (simp add: case_prod_beta)
  moreover have "nics' ! j =
        (if i \<le> j \<and> j < i + length (ipv # ips)
         then set_nic cmd w j ((ipv # ips) ! (j - i)) (nics ! j) else nics ! j)"
    if "j < length nics" for j
  proof (cases "j = i")
    case True
    then show ?thesis using nth lt by simp
  next
    case False
    then show ?thesis using nth that by (auto simp: nth_Cons')
  qed
  ultimately show ?case using len by blast
qed

lemma nic_loop_log:
  "i + length ips \<le> length nics \<Longrightarrow>
   fst (nic_loop cmd w i ips nics) = map Write_NicSettingMap [i..<i + length ips]"
proof (induction ips arbitrary: i nics)
  case Nil
  then show ?case by simp
next
  case (Cons ipv ips)
  let ?nics = "nics[i := set_nic cmd w i ipv (nics ! i)]"
  from Cons.prems have lt: "i < length nics" and le: "Suc i + length ips \<le> length ?nics"
    by simp_all
  have "fst (nic_loop cmd w i (ipv # ips) nics) =
          Write_NicSettingMap i # fst (nic_loop cmd w (Suc i) ips ?nics)"
    using lt by (simp add: case_prod_beta)
  also have "\<dots> = Write_NicSettingMap i # map Write_NicSettingMap [Suc i..<Suc i + length ips]"
    by (simp only: Cons.IH [OF le])
  also have "\<dots> = map Write_NicSettingMap [i..<i + length (ipv # ips)]"
    by (simp del: upt_Suc add: upt_conv_Cons)
  finally show ?case .
qed

subsection \<open>The general settings, by identity\<close>

lemma dns_fold:
  "DnsServerList_global
     (foldl (\<lambda>g s. g\<lparr>DnsServerList_global := DnsServerList_global g @ f s\<rparr>) g xs) =
   DnsServerList_global g @ concat (map f xs)"
  by (induction xs arbitrary: g) simp_all

lemma set_dns_global:
  "DnsServerList_global (set_dns cmd w g) =
     (if w then DnsServerList_global g
      else DnsServerList_global g @ concat (map (\<lambda>s. Split s (CHR '','')) (dnsserver cmd)))"
  by (simp add: set_dns_def dns_fold)

lemma set_dns_windows: "set_dns cmd True g = g"
  by (simp add: set_dns_def)

lemma general_settings_LinuxPrep:
  "Identity spec = LinuxPrep l \<Longrightarrow>
   general_settings cmd spec =
     (if alc cmd \<noteq> 0 then Inl (Fail (Errorf ''option '-auto-login' is Windows only'' []))
      else Inr (spec\<lparr>Identity := LinuxPrep (l\<lparr>
             HostName := (if host_Name cmd \<noteq> [] then Some (CustomizationFixedName (host_Name cmd))
                          else if prefix_Base cmd \<noteq> [] then Some (CustomizationPrefixName (prefix_Base cmd))
                          else HostName l),
             Domain_linux := (if domain cmd \<noteq> [] then domain cmd else Domain_linux l),
             TimeZone_linux := (if tz cmd \<noteq> [] then tz cmd else TimeZone_linux l)\<rparr>),
           GlobalIPSettings := set_dns cmd False (GlobalIPSettings spec)\<rparr>))"
  by (simp add: general_settings_def set_domain_def set_prefix_def set_host_def set_alc_def
      set_tz_def isWindows_def)

lemma general_settings_OtherIdentity:
  "Identity spec = OtherIdentity \<Longrightarrow>
   general_settings cmd spec =
     (if domain cmd \<noteq> [] \<or> prefix_Base cmd \<noteq> [] \<or> host_Name cmd \<noteq> []
        then Inl (Panic NilPointerDereference)
      else if alc cmd \<noteq> 0 then Inl (Fail (Errorf ''option '-auto-login' is Windows only'' []))
      else if tz cmd \<noteq> [] then Inl (Panic NilPointerDereference)
      else Inr (spec\<lparr>GlobalIPSettings := set_dns cmd False (GlobalIPSettings spec)\<rparr>))"
  by (simp add: general_settings_def set_domain_def set_prefix_def set_host_def set_alc_def
      set_tz_def isWindows_def)

lemma general_settings_Sysprep:
  "Identity spec = Sysprep s \<Longrightarrow>
   general_settings cmd spec =
     (let s1 = s\<lparr>
            GuiUnattended := (GuiUnattended s)\<lparr>
              AutoLogon := (if alc cmd \<noteq> 0 then True else AutoLogon (GuiUnattended s)),
              AutoLogonCount := (if alc cmd \<noteq> 0 then ucast (alc cmd)
                                 else AutoLogonCount (GuiUnattended s))\<rparr>,
            UserData := (UserData s)\<lparr>ComputerName :=
              (if host_Name cmd \<noteq> [] then Some (CustomizationFixedName (host_Name cmd))
               else if prefix_Base cmd \<noteq> [] then Some (CustomizationPrefixName (prefix_Base cmd))
               else ComputerName (UserData s))\<rparr>,
            Identification := (Identification s)\<lparr>JoinDomain :=
              (if domain cmd \<noteq> [] then domain cmd else JoinDomain (Identification s))\<rparr>\<rparr>
      in if tz cmd = [] then Inr (spec\<lparr>Identity := Sysprep s1\<rparr>)
         else
           (case ParseInt (tz cmd) 16 32 of
              Inl err \<Rightarrow>
                Inl (Fail (Errorf ''converting -tz=%q: %s'' [ArgString (tz cmd), ArgError err]))
            | Inr v \<Rightarrow>
                Inr (spec\<lparr>Identity := Sysprep (s1\<lparr>GuiUnattended :=
                       (GuiUnattended s1)\<lparr>TimeZone := word_of_int v\<rparr>\<rparr>)\<rparr>)))"
  by (simp add: general_settings_def set_domain_def set_prefix_def set_host_def set_alc_def
      set_tz_def isWindows_def set_dns_windows Let_def split: sum.splits)

lemma general_settings_frame:
  "general_settings cmd spec = Inr spec1 \<Longrightarrow>
   NicSettingMap spec1 = NicSettingMap spec \<and>
   GlobalIPSettings spec1 = set_dns cmd (isWindows (Identity spec)) (GlobalIPSettings spec) \<and>
   isWindows (Identity spec1) = isWindows (Identity spec)"
proof (cases "Identity spec")
  case (Sysprep s)
  assume "general_settings cmd spec = Inr spec1"
  with Sysprep show ?thesis
    by (auto simp: general_settings_Sysprep isWindows_def Let_def set_dns_windows
        split: if_splits sum.splits)
next
  case (LinuxPrep l)
  assume "general_settings cmd spec = Inr spec1"
  with LinuxPrep show ?thesis
    by (auto simp: general_settings_LinuxPrep isWindows_def split: if_splits)
next
  case OtherIdentity
  assume "general_settings cmd spec = Inr spec1"
  with OtherIdentity show ?thesis
    by (auto simp: general_settings_OtherIdentity isWindows_def split: if_splits)
qed

subsection \<open>Parsing and the conversions to 32 bits\<close>

lemma ParseInt_range:
  "ParseInt s base bitSize = Inr v \<Longrightarrow> - (2 ^ (bitSize - 1)) \<le> v \<and> v < 2 ^ (bitSize - 1)"
proof -
  assume a: "ParseInt s base bitSize = Inr v"
  define c :: nat where "c = 2 ^ (bitSize - 1)"
  obtain un err where p:
    "ParseUint (if hd s = CHR ''+'' \<or> hd s = CHR ''-'' then tl s else s) base bitSize = (un, err)"
    by (cases "ParseUint (if hd s = CHR ''+'' \<or> hd s = CHR ''-'' then tl s else s) base bitSize")
  from a p have v: "v = (if hd s = CHR ''-'' then - int un else int un)"
    and b: "hd s = CHR ''-'' \<or> un < c" "un \<le> c"
    unfolding c_def by (auto simp: ParseInt_def Let_def split: if_splits)
  have c: "(2::int) ^ (bitSize - 1) = int c" "0 < c"
    by (simp_all add: c_def)
  show ?thesis
    unfolding c using v b c(2) by auto
qed

lemma sint_TimeZone:
  "- (2 ^ 31) \<le> v \<Longrightarrow> v < 2 ^ 31 \<Longrightarrow> sint (word_of_int v :: 32 word) = v"
  by (simp add: sint_sbintrunc' signed_take_bit_int_eq_self)

lemma sint_AutoLogonCount:
  "sint (ucast (w :: 64 word) :: 32 word) = signed_take_bit 31 (sint w)"
proof -
  have "sint (ucast w :: 32 word) = sint (word_of_int (uint w) :: 32 word)"
    by (simp only: ucast_eq)
  also have "\<dots> = signed_take_bit 31 (uint w)"
    by (simp only: sint_sbintrunc') simp
  also have "\<dots> = signed_take_bit 31 (signed_take_bit 63 (uint w))"
    by (simp only: signed_take_bit_signed_take_bit)
  also have "signed_take_bit 63 (uint w) = sint w"
    by (simp add: sint_uint)
  finally show ?thesis .
qed

lemma AutoLogonCount_exact:
  "sint (ucast (w :: 64 word) :: 32 word) = sint w \<longleftrightarrow> - (2 ^ 31) \<le> sint w \<and> sint w < 2 ^ 31"
  by (simp only: sint_AutoLogonCount signed_take_bit_int_eq_self_iff)

subsection \<open>From the count check to the end of the loop\<close>

lemma customize_spec_count:
  "length (NicSettingMap spec) < length (ip cmd) \<Longrightarrow>
   customize_spec cmd name spec =
     ([], Inl (Fail (Errorf ''%d -ip specified, spec %q has %d''
        [ArgInt (int (length (ip cmd))), ArgString name,
         ArgInt (int (length (NicSettingMap spec)))])))"
  by (simp add: customize_spec_def check_ip_count_def)

lemma customize_spec_settings:
  "length (ip cmd) \<le> length (NicSettingMap spec) \<Longrightarrow> general_settings cmd spec = Inl a \<Longrightarrow>
   customize_spec cmd name spec = ([], Inl a)"
  by (simp add: customize_spec_def check_ip_count_def)

lemma customize_spec_fails:
  "general_settings cmd spec = Inl a \<Longrightarrow> \<exists>a'. customize_spec cmd name spec = ([], Inl a')"
  by (cases "length (ip cmd) \<le> length (NicSettingMap spec)")
    (simp_all add: customize_spec_settings customize_spec_count)

lemma customize_spec_loop:
  assumes le: "length (ip cmd) \<le> length (NicSettingMap spec)"
    and gs: "general_settings cmd spec = Inr spec1"
  shows "\<exists>nics'. customize_spec cmd name spec =
           (map Write_NicSettingMap [0..<length (ip cmd)], Inr (spec1\<lparr>NicSettingMap := nics'\<rparr>)) \<and>
         length nics' = length (NicSettingMap spec) \<and>
         (\<forall>j<length (NicSettingMap spec). nics' ! j =
            (if j < length (ip cmd)
             then set_nic cmd (isWindows (Identity spec)) j (ip cmd ! j) (NicSettingMap spec ! j)
             else NicSettingMap spec ! j))"
proof -
  let ?w = "isWindows (Identity spec)"
  have n: "NicSettingMap spec1 = NicSettingMap spec"
    using general_settings_frame [OF gs] by simp
  from le have le0: "0 + length (ip cmd) \<le> length (NicSettingMap spec)" by simp
  from nic_loop_result [OF le0, of cmd ?w] obtain nics' where
    r: "snd (nic_loop cmd ?w 0 (ip cmd) (NicSettingMap spec)) = Inr nics'" and
    len: "length nics' = length (NicSettingMap spec)" and
    nth: "\<forall>j<length (NicSettingMap spec). nics' ! j =
            (if 0 \<le> j \<and> j < 0 + length (ip cmd)
             then set_nic cmd ?w j (ip cmd ! (j - 0)) (NicSettingMap spec ! j)
             else NicSettingMap spec ! j)"
    by blast
  have l: "fst (nic_loop cmd ?w 0 (ip cmd) (NicSettingMap spec)) =
             map Write_NicSettingMap [0..<length (ip cmd)]"
    using nic_loop_log [OF le0, of cmd ?w] by simp
  have "nic_loop cmd ?w 0 (ip cmd) (NicSettingMap spec) =
          (map Write_NicSettingMap [0..<length (ip cmd)], Inr nics')"
    using r l by (simp add: prod_eq_iff)
  then have "customize_spec cmd name spec =
          (map Write_NicSettingMap [0..<length (ip cmd)], Inr (spec1\<lparr>NicSettingMap := nics'\<rparr>))"
    using le gs n by (simp add: customize_spec_def check_ip_count_def)
  with len nth show ?thesis by auto
qed

lemma customize_spec_Inr:
  assumes "customize_spec cmd name spec = (log, Inr spec')"
  shows "length (ip cmd) \<le> length (NicSettingMap spec) \<and>
         log = map Write_NicSettingMap [0..<length (ip cmd)] \<and>
         (\<exists>spec1. general_settings cmd spec = Inr spec1 \<and> Identity spec' = Identity spec1 \<and>
            GlobalIPSettings spec' = GlobalIPSettings spec1) \<and>
         length (NicSettingMap spec') = length (NicSettingMap spec) \<and>
         (\<forall>j<length (NicSettingMap spec). NicSettingMap spec' ! j =
            (if j < length (ip cmd)
             then set_nic cmd (isWindows (Identity spec)) j (ip cmd ! j) (NicSettingMap spec ! j)
             else NicSettingMap spec ! j))"
proof -
  have le: "length (ip cmd) \<le> length (NicSettingMap spec)"
  proof (rule ccontr)
    assume "\<not> ?thesis"
    then have "length (NicSettingMap spec) < length (ip cmd)" by simp
    from customize_spec_count [OF this, of name] assms show False by simp
  qed
  obtain spec1 where gs: "general_settings cmd spec = Inr spec1"
  proof (cases "general_settings cmd spec")
    case (Inl a)
    from customize_spec_settings [OF le Inl, of name] assms show ?thesis by simp
  next
    case (Inr spec1)
    then show ?thesis by (rule that)
  qed
  from customize_spec_loop [OF le gs, of name] assms gs le show ?thesis
    by auto
qed

subsection \<open>Run\<close>

lemma Run_Fail:
  "VirtualMachine e = Inr (Some vm) \<Longrightarrow> resolve_spec e cmd name = (log1, Inr spec) \<Longrightarrow>
   customize_spec cmd name spec = (log2, Inl (Fail err)) \<Longrightarrow>
   Run e cmd name = (log1 @ log2, Returned (Some err))"
  by (simp add: Run_def)

lemma Run_Panic:
  "VirtualMachine e = Inr (Some vm) \<Longrightarrow> resolve_spec e cmd name = (log1, Inr spec) \<Longrightarrow>
   customize_spec cmd name spec = (log2, Inl (Panic p)) \<Longrightarrow>
   Run e cmd name = (log1 @ log2, Panicked p)"
  by (simp add: Run_def)

lemma Run_submit:
  "VirtualMachine e = Inr (Some vm) \<Longrightarrow> resolve_spec e cmd name = (log1, Inr spec) \<Longrightarrow>
   customize_spec cmd name spec = (log2, Inr spec') \<Longrightarrow>
   Run e cmd name = (log1 @ log2 @ fst (submit e spec'), snd (submit e spec'))"
  by (simp add: Run_def case_prod_beta)

lemma Run_submitted:
  assumes vm: "VirtualMachine e = Inr (Some vm)"
    and rs: "resolve_spec e cmd name = (log1, Inr spec)"
  shows "submitted (fst (Run e cmd name)) =
           (case snd (customize_spec cmd name spec) of Inl a \<Rightarrow> [] | Inr spec' \<Rightarrow> [spec'])"
proof -
  obtain log2 r where cs: "customize_spec cmd name spec = (log2, r)"
    by (cases "customize_spec cmd name spec")
  have l1: "submitted log1 = []" using resolve_spec_log(2) [of e cmd name] rs by simp
  show ?thesis
  proof (cases r)
    case (Inl a)
    have l2: "log2 = []"
    proof (cases "length (ip cmd) \<le> length (NicSettingMap spec)")
      case True
      then show ?thesis
        using cs Inl customize_spec_loop [OF True, of _ name]
        by (cases "general_settings cmd spec") (auto simp: customize_spec_settings)
    next
      case False
      then show ?thesis using cs customize_spec_count [of spec cmd name] by simp
    qed
    show ?thesis
    proof (cases a)
      case (Fail err)
      with Run_Fail [OF vm rs, of log2 err] cs Inl l1 l2 show ?thesis by simp
    next
      case (Panic p)
      with Run_Panic [OF vm rs, of log2 p] cs Inl l1 l2 show ?thesis by simp
    qed
  next
    case (Inr spec')
    from customize_spec_Inr [of cmd name spec log2 spec'] cs Inr
    have l2: "submitted log2 = []" by (simp add: log_of_writes)
    from Run_submit [OF vm rs, of log2 spec'] cs Inr l1 l2 show ?thesis
      by (simp add: submitted_append submit_log)
  qed
qed

lemma Run_no_submission:
  "VirtualMachine e = Inr (Some vm) \<Longrightarrow> resolve_spec e cmd name = (log1, Inr spec) \<Longrightarrow>
   customize_spec cmd name spec = (log2, Inl a) \<Longrightarrow> submitted (fst (Run e cmd name)) = []"
  by (simp add: Run_submitted)

lemma length_filter_mono:
  "(\<And>x. x \<in> set xs \<Longrightarrow> P x \<Longrightarrow> Q x) \<Longrightarrow> length (filter P xs) \<le> length (filter Q xs)"
  by (induction xs) auto

lemma filter_below_upt: "filter (\<lambda>j. j < k) [0..<n] = [0..<min k n]"
proof (induction n)
  case 0
  show ?case by simp
next
  case (Suc n)
  show ?case
  proof (cases "n < k")
    case True
    then have "min k (Suc n) = Suc n" "min k n = n" by simp_all
    with Suc True show ?thesis by simp
  next
    case False
    then have "min k (Suc n) = k" "min k n = k" by simp_all
    with Suc False show ?thesis by simp
  qed
qed

lemma Run_submitted_spec:
  assumes vm: "VirtualMachine e = Inr (Some vm)"
    and rs: "resolve_spec e cmd name = (log1, Inr spec)"
    and le: "length (ip cmd) \<le> length (NicSettingMap spec)"
    and gs: "general_settings cmd spec = Inr spec1"
  shows "\<exists>spec'. submitted (fst (Run e cmd name)) = [spec'] \<and>
           length (NicSettingMap spec') = length (NicSettingMap spec) \<and>
           (\<forall>j<length (NicSettingMap spec). NicSettingMap spec' ! j =
              (if j < length (ip cmd)
               then set_nic cmd (isWindows (Identity spec)) j (ip cmd ! j) (NicSettingMap spec ! j)
               else NicSettingMap spec ! j))"
proof -
  from customize_spec_loop [OF le gs, of name] obtain nics' where
    cs: "customize_spec cmd name spec =
           (map Write_NicSettingMap [0..<length (ip cmd)], Inr (spec1\<lparr>NicSettingMap := nics'\<rparr>))"
    and len: "length nics' = length (NicSettingMap spec)"
    and nth: "\<forall>j<length (NicSettingMap spec). nics' ! j =
            (if j < length (ip cmd)
             then set_nic cmd (isWindows (Identity spec)) j (ip cmd ! j) (NicSettingMap spec ! j)
             else NicSettingMap spec ! j)"
    by blast
  have "submitted (fst (Run e cmd name)) = [spec1\<lparr>NicSettingMap := nics'\<rparr>]"
    by (simp add: Run_submitted [OF vm rs] cs)
  with len nth show ?thesis by simp
qed

subsection \<open>The prefix once a host name is given\<close>

lemma set_nic_prefix: "set_nic (cmd\<lparr>prefix_Base := p\<rparr>) w i ipv nic = set_nic cmd w i ipv nic"
  by (simp add: set_nic_def Let_def)

lemma nic_loop_prefix:
  "nic_loop (cmd\<lparr>prefix_Base := p\<rparr>) w i ips nics = nic_loop cmd w i ips nics"
  by (induction ips arbitrary: i nics) (simp_all add: set_nic_prefix)

lemma set_host_after_set_prefix:
  "set_prefix cmd idn = Inr idn' \<Longrightarrow> host_Name cmd \<noteq> [] \<Longrightarrow> set_host cmd idn' = set_host cmd idn"
  by (auto simp: set_prefix_def set_host_def
      split: if_splits BaseCustomizationIdentitySettings.splits)

lemma general_settings_prefix:
  assumes "host_Name cmd \<noteq> []"
  shows "general_settings (cmd\<lparr>prefix_Base := p\<rparr>) spec = general_settings cmd spec"
proof (cases "Identity spec")
  case (Sysprep s)
  then show ?thesis using assms
    by (simp add: general_settings_Sysprep [OF Sysprep] Let_def cong: sum.case_cong)
next
  case (LinuxPrep l)
  then show ?thesis using assms
    by (simp add: general_settings_LinuxPrep [OF LinuxPrep] set_dns_def)
next
  case OtherIdentity
  then show ?thesis using assms
    by (simp add: general_settings_OtherIdentity [OF OtherIdentity])
qed

lemma customize_spec_prefix:
  "host_Name cmd \<noteq> [] \<Longrightarrow>
   customize_spec (cmd\<lparr>prefix_Base := p\<rparr>) name spec = customize_spec cmd name spec"
  by (simp add: customize_spec_def check_ip_count_def general_settings_prefix nic_loop_prefix
      cong: sum.case_cong)

lemma resolve_spec_prefix:
  "resolve_spec e (cmd\<lparr>prefix_Base := p\<rparr>) name = resolve_spec e cmd name"
  by (simp add: resolve_spec_def new_spec_def Let_def)

subsection \<open>The auto-logon count\<close>

lemma set_alc_not_Sysprep:
  "alc cmd \<noteq> 0 \<Longrightarrow> \<not> isWindows idn \<Longrightarrow>
   set_alc cmd idn = Inl (Fail (Errorf ''option '-auto-login' is Windows only'' []))"
  by (simp add: set_alc_def isWindows_def split: BaseCustomizationIdentitySettings.splits)

lemma set_alc_Sysprep:
  "alc cmd \<noteq> 0 \<Longrightarrow>
   set_alc cmd (Sysprep s) =
     Inr (Sysprep (s\<lparr>GuiUnattended := (GuiUnattended s)
            \<lparr>AutoLogon := True, AutoLogonCount := ucast (alc cmd)\<rparr>\<rparr>))"
  by (simp add: set_alc_def)

lemma auto_login_not_submitted:
  assumes vm: "VirtualMachine e = Inr (Some vm)"
    and rs: "resolve_spec e cmd name = (log1, Inr spec)"
    and alc: "alc cmd \<noteq> 0" and w: "\<not> isWindows (Identity spec)"
  shows "submitted (fst (Run e cmd name)) = []"
proof -
  have "\<exists>a. general_settings cmd spec = Inl a"
  proof (cases "Identity spec")
    case (Sysprep s)
    with w show ?thesis by (simp add: isWindows_def)
  next
    case (LinuxPrep l)
    with alc show ?thesis by (simp add: general_settings_LinuxPrep [OF LinuxPrep])
  next
    case OtherIdentity
    with alc show ?thesis by (simp add: general_settings_OtherIdentity [OF OtherIdentity])
  qed
  then obtain a where "general_settings cmd spec = Inl a" ..
  from customize_spec_fails [OF this, of name] obtain a'
    where "customize_spec cmd name spec = ([], Inl a')" ..
  from Run_no_submission [OF vm rs this] show ?thesis .
qed

lemma auto_login_windows_only:
  assumes vm: "VirtualMachine e = Inr (Some vm)"
    and rs: "resolve_spec e cmd name = (log1, Inr spec)"
    and alc: "alc cmd \<noteq> 0" and l: "Identity spec = LinuxPrep l"
    and le: "length (ip cmd) \<le> length (NicSettingMap spec)"
  shows "Run e cmd name =
           (log1, Returned (Some (Errorf ''option '-auto-login' is Windows only'' [])))"
proof -
  from alc have "general_settings cmd spec =
      Inl (Fail (Errorf ''option '-auto-login' is Windows only'' []))"
    by (simp add: general_settings_LinuxPrep [OF l])
  from Run_Fail [OF vm rs customize_spec_settings [OF le this]] show ?thesis by simp
qed

lemma auto_login_sysprep:
  assumes idn: "Identity spec = Sysprep s" and alc: "alc cmd \<noteq> 0"
    and cs: "customize_spec cmd name spec = (log, Inr spec')"
  shows "\<exists>s'. Identity spec' = Sysprep s' \<and> AutoLogon (GuiUnattended s') \<and>
           AutoLogonCount (GuiUnattended s') = ucast (alc cmd)"
proof -
  from customize_spec_Inr [OF cs] obtain spec1 where
    gs: "general_settings cmd spec = Inr spec1" and i: "Identity spec' = Identity spec1"
    by blast
  from gs alc show ?thesis
    by (auto simp: i general_settings_Sysprep [OF idn] Let_def split: if_splits sum.splits)
qed

subsection \<open>Worked examples\<close>

lemmas settings_defs =
  general_settings_def set_domain_def set_dns_def set_prefix_def set_host_def set_alc_def
  set_tz_def isWindows_def

lemmas ParseInt_defs = ParseInt_def ParseUint_def digit_def byte_def lower_def maxUint64_def

lemmas sample_defs =
  sample_env_def linux_template_def windows_template_def other_template_def Register_def
  new_sysprep_def new_linux_prep_def new_adapter_mapping_def

lemmas Run_defs =
  Run_def resolve_spec_def lookup_spec_def new_spec_def customize_spec_def check_ip_count_def
  submit_def set_nic_def

lemma sample_vm: "VirtualMachine sample_env = Inr (Some 0)"
  by (simp add: sample_env_def)

lemma sample_resolve_linux:
  "resolve_spec sample_env cmd ''linux'' =
     ([Call_DoesCustomizationSpecExist ''linux'', Call_GetCustomizationSpec ''linux''],
      Inr linux_template)"
  by (simp add: resolve_spec_def lookup_spec_def sample_env_def)

lemma sample_resolve_windows:
  "resolve_spec sample_env cmd ''windows'' =
     ([Call_DoesCustomizationSpecExist ''windows'', Call_GetCustomizationSpec ''windows''],
      Inr windows_template)"
  by (simp add: resolve_spec_def lookup_spec_def sample_env_def)

lemma sample_resolve_other:
  "resolve_spec sample_env cmd ''other'' =
     ([Call_DoesCustomizationSpecExist ''other'', Call_GetCustomizationSpec ''other''],
      Inr other_template)"
  by (simp add: resolve_spec_def lookup_spec_def sample_env_def)

lemma sample_dns_linux:
  "customize_spec (Register\<lparr>ip := [''10.0.0.5''], dnsserver := [''8.8.8.8,8.8.4.4'']\<rparr>) ''linux''
     linux_template =
   ([Write_NicSettingMap 0],
    Inr \<lparr> Identity = LinuxPrep \<lparr> HostName = Some CustomizationOtherName,
                 Domain_linux = ''corp.example'', TimeZone_linux = ''UTC'' \<rparr>,
          GlobalIPSettings = \<lparr> DnsServerList_global = [''1.1.1.1'', ''8.8.8.8'', ''8.8.4.4''] \<rparr>,
          NicSettingMap =
            [\<lparr> MacAddress = ''00:50:56:aa:bb:cc'',
               Adapter = \<lparr> Ip = Some (CustomizationFixedIp ''10.0.0.5''),
                 SubnetMask = ''255.255.0.0'', Gateway = [''10.0.0.1''],
                 DnsServerList = [''9.9.9.9''] \<rparr> \<rparr>] \<rparr>)"
  by (simp add: Run_defs settings_defs sample_defs)

lemma sample_dns_windows:
  "customize_spec
     (Register\<lparr>ip := [''dhcp'', ''10.0.0.5''], dnsserver := [''8.8.8.8,8.8.4.4''],
        netmask := [''255.255.255.0''], gateway := [''10.0.0.1,10.0.0.2''],
        mac := [''00:50:56:be:dd:f8''], kind := ''Windows''\<rparr>) []
     \<lparr> Identity = Sysprep new_sysprep, GlobalIPSettings = \<lparr> DnsServerList_global = [] \<rparr>,
       NicSettingMap = [new_adapter_mapping, new_adapter_mapping] \<rparr> =
   ([Write_NicSettingMap 0, Write_NicSettingMap 1],
    Inr \<lparr> Identity = Sysprep new_sysprep, GlobalIPSettings = \<lparr> DnsServerList_global = [] \<rparr>,
          NicSettingMap =
            [\<lparr> MacAddress = ''00:50:56:be:dd:f8'',
               Adapter = \<lparr> Ip = Some CustomizationDhcpIpGenerator,
                 SubnetMask = ''255.255.255.0'', Gateway = [''10.0.0.1'', ''10.0.0.2''],
                 DnsServerList = [''8.8.8.8'', ''8.8.4.4''] \<rparr> \<rparr>,
             \<lparr> MacAddress = [],
               Adapter = \<lparr> Ip = Some (CustomizationFixedIp ''10.0.0.5''),
                 SubnetMask = [], Gateway = [], DnsServerList = [] \<rparr> \<rparr>] \<rparr>)"
  by (simp add: Run_defs settings_defs sample_defs)

lemma sample_fields:
  "customize_spec
     (Register\<lparr>ip := [''10.0.0.5'', ''10.0.0.6''], netmask := [''255.255.255.0''],
        gateway := [''10.0.0.1,10.0.0.2'']\<rparr>) ''three''
     (linux_template\<lparr>NicSettingMap :=
        [hd (NicSettingMap linux_template), hd (NicSettingMap linux_template),
         hd (NicSettingMap linux_template)]\<rparr>) =
   ([Write_NicSettingMap 0, Write_NicSettingMap 1],
    Inr (linux_template\<lparr>NicSettingMap :=
      [\<lparr> MacAddress = ''00:50:56:aa:bb:cc'',
         Adapter = \<lparr> Ip = Some (CustomizationFixedIp ''10.0.0.5''),
           SubnetMask = ''255.255.255.0'', Gateway = [''10.0.0.1'', ''10.0.0.2''],
           DnsServerList = [''9.9.9.9''] \<rparr> \<rparr>,
       \<lparr> MacAddress = ''00:50:56:aa:bb:cc'',
         Adapter = \<lparr> Ip = Some (CustomizationFixedIp ''10.0.0.6''),
           SubnetMask = ''255.255.0.0'', Gateway = [''10.0.0.1''],
           DnsServerList = [''9.9.9.9''] \<rparr> \<rparr>,
       hd (NicSettingMap linux_template)]\<rparr>))"
  by (simp add: Run_defs settings_defs sample_defs)

lemma sample_ParseInt:
  "ParseInt ''ZZZ'' 16 32 = Inl (NumError ''ParseInt'' ''ZZZ'' ErrSyntax)"
  "ParseInt ''80000000'' 16 32 = Inl (NumError ''ParseInt'' ''80000000'' ErrRange)"
  "ParseInt ''-1F'' 16 32 = Inr (- 31)"
  by (simp_all add: ParseInt_defs)

lemma sample_host_linux:
  "Run sample_env (Register\<lparr>host_Name := ''web01''\<rparr>) ''linux'' =
     ([Call_DoesCustomizationSpecExist ''linux'', Call_GetCustomizationSpec ''linux'',
       Call_Customize (linux_template\<lparr>Identity :=
         LinuxPrep \<lparr> HostName = Some (CustomizationFixedName ''web01''),
           Domain_linux = ''corp.example'', TimeZone_linux = ''UTC'' \<rparr>\<rparr>),
       Call_Wait 7],
      Returned None)"
  by (simp add: Run_defs settings_defs sample_defs)

section \<open>The claims\<close>

text \<open>
  C1. When the resolved specification has fewer adapter slots than there are \<^verbatim>\<open>-ip\<close>
  values, \<^verbatim>\<open>Run\<close> returns the error built from the two counts and the name, having
  written no adapter slot and submitted nothing. The loop writes the slots
  \<open>0, \<dots>, min (length ip) (number of slots) - 1\<close>, each once; when the count check and
  the general settings pass, these are the slots \<open>0, \<dots>, length ip - 1\<close>, and the
  specification submitted shows it: it has as many slots as before, slot \<open>j\<close> below
  \<open>length ip\<close> holds the address generator made from the \<open>j\<close>-th \<^verbatim>\<open>-ip\<close> value, every
  slot from \<open>length ip\<close> on is what it was, so at most \<open>min (length ip) (number of
  slots)\<close> slots differ from before, and exactly that many when no slot below
  \<open>length ip\<close> held its new address generator already.
\<close>

theorem ip_count_check:
  assumes vm: "VirtualMachine e = Inr (Some vm)"
    and rs: "resolve_spec e cmd name = (log1, Inr spec)"
  shows "(length (NicSettingMap spec) < length (ip cmd) \<longrightarrow>
            Run e cmd name =
              (log1, Returned (Some (Errorf ''%d -ip specified, spec %q has %d''
                 [ArgInt (int (length (ip cmd))), ArgString name,
                  ArgInt (int (length (NicSettingMap spec)))]))) \<and>
            nic_writes (fst (Run e cmd name)) = [] \<and>
            submitted (fst (Run e cmd name)) = []) \<and>
         nic_writes (fst (nic_loop cmd w 0 (ip cmd) (NicSettingMap spec))) =
           [0..<min (length (ip cmd)) (length (NicSettingMap spec))] \<and>
         (length (ip cmd) \<le> length (NicSettingMap spec) \<longrightarrow>
            general_settings cmd spec = Inr spec1 \<longrightarrow>
            nic_writes (fst (Run e cmd name)) = [0..<length (ip cmd)] \<and>
            length (nic_writes (fst (Run e cmd name))) =
              min (length (ip cmd)) (length (NicSettingMap spec)) \<and>
            (\<exists>spec'. submitted (fst (Run e cmd name)) = [spec'] \<and>
               length (NicSettingMap spec') = length (NicSettingMap spec) \<and>
               (\<forall>j<length (NicSettingMap spec).
                  (j < length (ip cmd) \<longrightarrow>
                     Ip (Adapter (NicSettingMap spec' ! j)) =
                       Some (if ip cmd ! j = ''dhcp'' then CustomizationDhcpIpGenerator
                             else CustomizationFixedIp (ip cmd ! j))) \<and>
                  (length (ip cmd) \<le> j \<longrightarrow>
                     NicSettingMap spec' ! j = NicSettingMap spec ! j)) \<and>
               length (filter (\<lambda>j. NicSettingMap spec' ! j \<noteq> NicSettingMap spec ! j)
                         [0..<length (NicSettingMap spec)])
                 \<le> min (length (ip cmd)) (length (NicSettingMap spec)) \<and>
               ((\<forall>j<length (ip cmd). Ip (Adapter (NicSettingMap spec ! j)) \<noteq>
                     Some (if ip cmd ! j = ''dhcp'' then CustomizationDhcpIpGenerator
                           else CustomizationFixedIp (ip cmd ! j))) \<longrightarrow>
                length (filter (\<lambda>j. NicSettingMap spec' ! j \<noteq> NicSettingMap spec ! j)
                          [0..<length (NicSettingMap spec)])
                  = min (length (ip cmd)) (length (NicSettingMap spec)))))"
proof (intro conjI impI)
  assume gt: "length (NicSettingMap spec) < length (ip cmd)"
  from Run_Fail [OF vm rs customize_spec_count [OF gt]]
  show r: "Run e cmd name =
              (log1, Returned (Some (Errorf ''%d -ip specified, spec %q has %d''
                 [ArgInt (int (length (ip cmd))), ArgString name,
                  ArgInt (int (length (NicSettingMap spec)))])))"
    by simp
  from rs resolve_spec_log [of e cmd name]
  show "nic_writes (fst (Run e cmd name)) = []" "submitted (fst (Run e cmd name)) = []"
    by (simp_all add: r)
next
  show "nic_writes (fst (nic_loop cmd w 0 (ip cmd) (NicSettingMap spec))) =
           [0..<min (length (ip cmd)) (length (NicSettingMap spec))]"
    by (simp add: nic_loop_writes)
next
  assume le: "length (ip cmd) \<le> length (NicSettingMap spec)"
    and gs: "general_settings cmd spec = Inr spec1"
  from customize_spec_loop [OF le gs, of name] obtain nics' where
    cs: "customize_spec cmd name spec =
           (map Write_NicSettingMap [0..<length (ip cmd)], Inr (spec1\<lparr>NicSettingMap := nics'\<rparr>))"
    by blast
  from Run_submit [OF vm rs cs] rs resolve_spec_log(1) [of e cmd name]
  show w: "nic_writes (fst (Run e cmd name)) = [0..<length (ip cmd)]"
    by (simp add: nic_writes_append log_of_writes submit_log)
  show "length (nic_writes (fst (Run e cmd name))) =
          min (length (ip cmd)) (length (NicSettingMap spec))"
    using le by (simp add: w)
  let ?n = "length (NicSettingMap spec)" and ?k = "length (ip cmd)"
  let ?gen = "\<lambda>j. Some (if ip cmd ! j = ''dhcp'' then CustomizationDhcpIpGenerator
                           else CustomizationFixedIp (ip cmd ! j))"
  from Run_submitted_spec [OF vm rs le gs] obtain spec' where
    sub: "submitted (fst (Run e cmd name)) = [spec']"
    and len: "length (NicSettingMap spec') = ?n"
    and nth: "\<And>j. j < ?n \<Longrightarrow> NicSettingMap spec' ! j =
              (if j < ?k
               then set_nic cmd (isWindows (Identity spec)) j (ip cmd ! j) (NicSettingMap spec ! j)
               else NicSettingMap spec ! j)"
    by blast
  let ?changed = "\<lambda>j. NicSettingMap spec' ! j \<noteq> NicSettingMap spec ! j"
  have ip: "Ip (Adapter (NicSettingMap spec' ! j)) = ?gen j" if "j < ?k" for j
    using nth [of j] that le by (simp add: set_nic_Ip)
  have frame: "NicSettingMap spec' ! j = NicSettingMap spec ! j" if "j < ?n" "?k \<le> j" for j
    using nth [of j] that by simp
  have "length (filter ?changed [0..<?n]) \<le> length (filter (\<lambda>j. j < ?k) [0..<?n])"
    by (rule length_filter_mono) (use frame in force)
  then have upper: "length (filter ?changed [0..<?n]) \<le> min ?k ?n"
    by (simp add: filter_below_upt)
  have exact: "length (filter ?changed [0..<?n]) = min ?k ?n"
    if fresh: "\<forall>j<?k. Ip (Adapter (NicSettingMap spec ! j)) \<noteq> ?gen j"
  proof -
    have "filter ?changed [0..<?n] = filter (\<lambda>j. j < ?k) [0..<?n]"
    proof (rule filter_cong [OF refl])
      fix j assume "j \<in> set [0..<?n]"
      then have j: "j < ?n" by simp
      show "?changed j = (j < ?k)"
      proof (cases "j < ?k")
        case True
        with ip [OF True] fresh show ?thesis by auto
      next
        case False
        with frame [OF j] show ?thesis by simp
      qed
    qed
    then show ?thesis by (simp add: filter_below_upt)
  qed
  show "\<exists>spec'. submitted (fst (Run e cmd name)) = [spec'] \<and>
               length (NicSettingMap spec') = length (NicSettingMap spec) \<and>
               (\<forall>j<length (NicSettingMap spec).
                  (j < length (ip cmd) \<longrightarrow>
                     Ip (Adapter (NicSettingMap spec' ! j)) =
                       Some (if ip cmd ! j = ''dhcp'' then CustomizationDhcpIpGenerator
                             else CustomizationFixedIp (ip cmd ! j))) \<and>
                  (length (ip cmd) \<le> j \<longrightarrow>
                     NicSettingMap spec' ! j = NicSettingMap spec ! j)) \<and>
               length (filter (\<lambda>j. NicSettingMap spec' ! j \<noteq> NicSettingMap spec ! j)
                         [0..<length (NicSettingMap spec)])
                 \<le> min (length (ip cmd)) (length (NicSettingMap spec)) \<and>
               ((\<forall>j<length (ip cmd). Ip (Adapter (NicSettingMap spec ! j)) \<noteq>
                     Some (if ip cmd ! j = ''dhcp'' then CustomizationDhcpIpGenerator
                           else CustomizationFixedIp (ip cmd ! j))) \<longrightarrow>
                length (filter (\<lambda>j. NicSettingMap spec' ! j \<noteq> NicSettingMap spec ! j)
                          [0..<length (NicSettingMap spec)])
                  = min (length (ip cmd)) (length (NicSettingMap spec)))"
    using sub len ip frame upper exact by (intro exI [of _ spec']) simp
qed


theorem ip_count_check_witness:
  "Run sample_env (Register\<lparr>ip := [''10.0.0.5'', ''10.0.0.6'']\<rparr>) ''linux'' =
     ([Call_DoesCustomizationSpecExist ''linux'', Call_GetCustomizationSpec ''linux''],
      Returned (Some (Errorf ''%d -ip specified, spec %q has %d''
        [ArgInt 2, ArgString ''linux'', ArgInt 1]))) \<and>
   nic_writes (fst (Run sample_env (Register\<lparr>ip := [''10.0.0.5'']\<rparr>) ''linux'')) = [0] \<and>
   nic_writes (fst (nic_loop (Register\<lparr>ip := [''10.0.0.5'', ''10.0.0.6'']\<rparr>) False 0
      [''10.0.0.5'', ''10.0.0.6''] (NicSettingMap linux_template))) = [0] \<and>
   submitted (fst (Run sample_env (Register\<lparr>ip := [''10.0.0.5'']\<rparr>) ''linux'')) =
     [linux_template\<lparr>NicSettingMap :=
        [\<lparr> MacAddress = ''00:50:56:aa:bb:cc'',
           Adapter = \<lparr> Ip = Some (CustomizationFixedIp ''10.0.0.5''),
             SubnetMask = ''255.255.0.0'', Gateway = [''10.0.0.1''],
             DnsServerList = [''9.9.9.9''] \<rparr> \<rparr>]\<rparr>] \<and>
   submitted (fst (Run
       (sample_env\<lparr>GetCustomizationSpec := \<lambda>n. Inr (linux_template\<lparr>NicSettingMap :=
          [hd (NicSettingMap linux_template), hd (NicSettingMap linux_template),
           hd (NicSettingMap linux_template)]\<rparr>)\<rparr>)
       (Register\<lparr>ip := [''dhcp'', ''10.0.0.6'']\<rparr>) ''linux'')) =
     [linux_template\<lparr>NicSettingMap :=
        [\<lparr> MacAddress = ''00:50:56:aa:bb:cc'',
           Adapter = \<lparr> Ip = Some CustomizationDhcpIpGenerator,
             SubnetMask = ''255.255.0.0'', Gateway = [''10.0.0.1''],
             DnsServerList = [''9.9.9.9''] \<rparr> \<rparr>,
         \<lparr> MacAddress = ''00:50:56:aa:bb:cc'',
           Adapter = \<lparr> Ip = Some (CustomizationFixedIp ''10.0.0.6''),
             SubnetMask = ''255.255.0.0'', Gateway = [''10.0.0.1''],
             DnsServerList = [''9.9.9.9''] \<rparr> \<rparr>,
         \<lparr> MacAddress = ''00:50:56:aa:bb:cc'',
           Adapter = \<lparr> Ip = Some CustomizationOtherIpGenerator,
             SubnetMask = ''255.255.0.0'', Gateway = [''10.0.0.1''],
             DnsServerList = [''9.9.9.9''] \<rparr> \<rparr>]\<rparr>]"
proof -
  let ?three = "linux_template\<lparr>NicSettingMap :=
          [hd (NicSettingMap linux_template), hd (NicSettingMap linux_template),
           hd (NicSettingMap linux_template)]\<rparr>"
  let ?env = "sample_env\<lparr>GetCustomizationSpec := \<lambda>n. Inr ?three\<rparr>"
  have gs: "\<exists>spec1. general_settings (Register\<lparr>ip := [''10.0.0.5'']\<rparr>) linux_template = Inr spec1"
    by (simp add: settings_defs sample_defs)
  then obtain spec1 where
    gs1: "general_settings (Register\<lparr>ip := [''10.0.0.5'']\<rparr>) linux_template = Inr spec1" ..
  have "\<exists>spec3. general_settings (Register\<lparr>ip := [''dhcp'', ''10.0.0.6'']\<rparr>) ?three = Inr spec3"
    by (simp add: settings_defs sample_defs)
  then obtain spec3 where
    gs3: "general_settings (Register\<lparr>ip := [''dhcp'', ''10.0.0.6'']\<rparr>) ?three = Inr spec3" ..
  have vm3: "VirtualMachine ?env = Inr (Some 0)"
    by (simp add: sample_env_def)
  have rs3: "resolve_spec ?env (Register\<lparr>ip := [''dhcp'', ''10.0.0.6'']\<rparr>) ''linux'' =
     ([Call_DoesCustomizationSpecExist ''linux'', Call_GetCustomizationSpec ''linux''],
      Inr ?three)"
    by (simp add: resolve_spec_def lookup_spec_def sample_env_def)
  from ip_count_check [OF sample_vm sample_resolve_linux,
      of "Register\<lparr>ip := [''10.0.0.5'', ''10.0.0.6'']\<rparr>" False]
    ip_count_check [OF sample_vm sample_resolve_linux, of "Register\<lparr>ip := [''10.0.0.5'']\<rparr>" False spec1]
    gs1
  have a: "Run sample_env (Register\<lparr>ip := [''10.0.0.5'', ''10.0.0.6'']\<rparr>) ''linux'' =
     ([Call_DoesCustomizationSpecExist ''linux'', Call_GetCustomizationSpec ''linux''],
      Returned (Some (Errorf ''%d -ip specified, spec %q has %d''
        [ArgInt 2, ArgString ''linux'', ArgInt 1]))) \<and>
   nic_writes (fst (Run sample_env (Register\<lparr>ip := [''10.0.0.5'']\<rparr>) ''linux'')) = [0] \<and>
   nic_writes (fst (nic_loop (Register\<lparr>ip := [''10.0.0.5'', ''10.0.0.6'']\<rparr>) False 0
      [''10.0.0.5'', ''10.0.0.6''] (NicSettingMap linux_template))) = [0]"
    by (simp add: linux_template_def Register_def)
  have b: "submitted (fst (Run sample_env (Register\<lparr>ip := [''10.0.0.5'']\<rparr>) ''linux'')) =
     [linux_template\<lparr>NicSettingMap :=
        [\<lparr> MacAddress = ''00:50:56:aa:bb:cc'',
           Adapter = \<lparr> Ip = Some (CustomizationFixedIp ''10.0.0.5''),
             SubnetMask = ''255.255.0.0'', Gateway = [''10.0.0.1''],
             DnsServerList = [''9.9.9.9''] \<rparr> \<rparr>]\<rparr>]"
    by (simp add: Run_defs settings_defs sample_defs)
  have c: "submitted (fst (Run ?env (Register\<lparr>ip := [''dhcp'', ''10.0.0.6'']\<rparr>) ''linux'')) =
     [linux_template\<lparr>NicSettingMap :=
        [\<lparr> MacAddress = ''00:50:56:aa:bb:cc'',
           Adapter = \<lparr> Ip = Some CustomizationDhcpIpGenerator,
             SubnetMask = ''255.255.0.0'', Gateway = [''10.0.0.1''],
             DnsServerList = [''9.9.9.9''] \<rparr> \<rparr>,
         \<lparr> MacAddress = ''00:50:56:aa:bb:cc'',
           Adapter = \<lparr> Ip = Some (CustomizationFixedIp ''10.0.0.6''),
             SubnetMask = ''255.255.0.0'', Gateway = [''10.0.0.1''],
             DnsServerList = [''9.9.9.9''] \<rparr> \<rparr>,
         \<lparr> MacAddress = ''00:50:56:aa:bb:cc'',
           Adapter = \<lparr> Ip = Some CustomizationOtherIpGenerator,
             SubnetMask = ''255.255.0.0'', Gateway = [''10.0.0.1''],
             DnsServerList = [''9.9.9.9''] \<rparr> \<rparr>]\<rparr>]"
    by (simp add: Run_defs settings_defs sample_defs)
  from ip_count_check [OF vm3 rs3, of False spec3] gs3 a b c
  show ?thesis by (intro conjI) simp_all
qed

text \<open>
  C2. With no NAME argument the command builds the specification itself: one zero-valued
  adapter slot for each \<^verbatim>\<open>-ip\<close> value, a Linux-prep identity for \<^verbatim>\<open>-type Linux\<close> (the
  value \<^verbatim>\<open>Register\<close> leaves in the flag) and a sysprep identity for \<^verbatim>\<open>-type Windows\<close>.
  For any other \<^verbatim>\<open>-type\<close> no specification results and \<^verbatim>\<open>Run\<close> returns
  \<^verbatim>\<open>flag.ErrHelp\<close> without a single call to the library.
\<close>

theorem new_specification:
  "(kind cmd = ''Linux'' \<longrightarrow>
      resolve_spec e cmd [] =
        ([], Inr \<lparr> Identity = LinuxPrep new_linux_prep,
                   GlobalIPSettings = \<lparr> DnsServerList_global = [] \<rparr>,
                   NicSettingMap = replicate (length (ip cmd)) new_adapter_mapping \<rparr>)) \<and>
   (kind cmd = ''Windows'' \<longrightarrow>
      resolve_spec e cmd [] =
        ([], Inr \<lparr> Identity = Sysprep new_sysprep,
                   GlobalIPSettings = \<lparr> DnsServerList_global = [] \<rparr>,
                   NicSettingMap = replicate (length (ip cmd)) new_adapter_mapping \<rparr>)) \<and>
   (kind cmd \<noteq> ''Linux'' \<and> kind cmd \<noteq> ''Windows'' \<longrightarrow>
      resolve_spec e cmd [] = ([], Inl ErrHelp) \<and>
      fst (Run e cmd []) = [] \<and>
      (VirtualMachine e = Inr (Some vm) \<longrightarrow> Run e cmd [] = ([], Returned (Some ErrHelp)))) \<and>
   (\<forall>log spec. resolve_spec e cmd [] = (log, Inr spec) \<longrightarrow>
      length (NicSettingMap spec) = length (ip cmd)) \<and>
   kind Register = ''Linux''"
  by (auto simp: resolve_spec_def new_spec_def Run_def Register_def Let_def
      split: sum.splits option.splits if_splits)

theorem new_specification_witness:
  "resolve_spec sample_env (Register\<lparr>ip := [''dhcp'', ''10.0.0.5'']\<rparr>) [] =
     ([], Inr \<lparr> Identity = LinuxPrep new_linux_prep,
                GlobalIPSettings = \<lparr> DnsServerList_global = [] \<rparr>,
                NicSettingMap = [new_adapter_mapping, new_adapter_mapping] \<rparr>) \<and>
   resolve_spec sample_env (Register\<lparr>ip := [''dhcp''], kind := ''Windows''\<rparr>) [] =
     ([], Inr \<lparr> Identity = Sysprep new_sysprep,
                GlobalIPSettings = \<lparr> DnsServerList_global = [] \<rparr>,
                NicSettingMap = [new_adapter_mapping] \<rparr>) \<and>
   Run sample_env (Register\<lparr>ip := [''dhcp''], kind := ''linux''\<rparr>) [] =
     ([], Returned (Some ErrHelp))"
  using new_specification [of "Register\<lparr>ip := [''dhcp'', ''10.0.0.5'']\<rparr>" sample_env 0]
    new_specification [of "Register\<lparr>ip := [''dhcp''], kind := ''Windows''\<rparr>" sample_env 0]
    new_specification [of "Register\<lparr>ip := [''dhcp''], kind := ''linux''\<rparr>" sample_env 0]
  by (simp add: Register_def sample_vm numeral_2_eq_2)

text \<open>
  C3. For an identity that is not sysprep, every comma-separated entry of every
  \<^verbatim>\<open>-dns-server\<close> value is appended, in order, to the global DNS server list, and the
  DNS server list of every adapter stays as it was. For a sysprep identity the global
  settings stay as they were, and the DNS server list of adapter \<open>j\<close> becomes the split
  \<open>j\<close>-th \<^verbatim>\<open>-dns-server\<close> value exactly when \<open>j\<close> is below both the number of \<^verbatim>\<open>-ip\<close>
  values and the number of \<^verbatim>\<open>-dns-server\<close> values.
\<close>

theorem dns_server_lists:
  "DnsServerList_global (set_dns cmd False g) =
     DnsServerList_global g @ concat (map (\<lambda>s. Split s (CHR '','')) (dnsserver cmd)) \<and>
   set_dns cmd True g = g \<and>
   (customize_spec cmd name spec = (log, Inr spec') \<longrightarrow>
      length (NicSettingMap spec') = length (NicSettingMap spec) \<and>
      (\<not> isWindows (Identity spec) \<longrightarrow>
         DnsServerList_global (GlobalIPSettings spec') =
           DnsServerList_global (GlobalIPSettings spec) @
           concat (map (\<lambda>s. Split s (CHR '','')) (dnsserver cmd)) \<and>
         (\<forall>j<length (NicSettingMap spec).
            DnsServerList (Adapter (NicSettingMap spec' ! j)) =
            DnsServerList (Adapter (NicSettingMap spec ! j)))) \<and>
      (isWindows (Identity spec) \<longrightarrow>
         GlobalIPSettings spec' = GlobalIPSettings spec \<and>
         (\<forall>j<length (NicSettingMap spec).
            DnsServerList (Adapter (NicSettingMap spec' ! j)) =
              (if j < length (ip cmd) \<and> j < length (dnsserver cmd)
               then Split (dnsserver cmd ! j) (CHR '','')
               else DnsServerList (Adapter (NicSettingMap spec ! j))))))"
proof (intro conjI impI)
  show "DnsServerList_global (set_dns cmd False g) =
     DnsServerList_global g @ concat (map (\<lambda>s. Split s (CHR '','')) (dnsserver cmd))"
    by (simp add: set_dns_global)
  show "set_dns cmd True g = g"
    by (rule set_dns_windows)
next
  assume cs: "customize_spec cmd name spec = (log, Inr spec')"
  from customize_spec_Inr [OF cs] obtain spec1 where
    gs: "general_settings cmd spec = Inr spec1" and
    g: "GlobalIPSettings spec' = GlobalIPSettings spec1" and
    len: "length (NicSettingMap spec') = length (NicSettingMap spec)" and
    nth: "\<forall>j<length (NicSettingMap spec). NicSettingMap spec' ! j =
            (if j < length (ip cmd)
             then set_nic cmd (isWindows (Identity spec)) j (ip cmd ! j) (NicSettingMap spec ! j)
             else NicSettingMap spec ! j)"
    by blast
  from general_settings_frame [OF gs] g
  have g': "GlobalIPSettings spec' = set_dns cmd (isWindows (Identity spec)) (GlobalIPSettings spec)"
    by simp
  show "length (NicSettingMap spec') = length (NicSettingMap spec)" by (rule len)
  {
    assume w: "\<not> isWindows (Identity spec)"
    show "DnsServerList_global (GlobalIPSettings spec') =
           DnsServerList_global (GlobalIPSettings spec) @
           concat (map (\<lambda>s. Split s (CHR '','')) (dnsserver cmd))"
      using g' w by (simp add: set_dns_global)
    show "\<forall>j<length (NicSettingMap spec).
            DnsServerList (Adapter (NicSettingMap spec' ! j)) =
            DnsServerList (Adapter (NicSettingMap spec ! j))"
      using nth w by (simp add: set_nic_DnsServerList)
  }
  {
    assume w: "isWindows (Identity spec)"
    show "GlobalIPSettings spec' = GlobalIPSettings spec"
      using g' w by (simp add: set_dns_windows)
    show "\<forall>j<length (NicSettingMap spec).
            DnsServerList (Adapter (NicSettingMap spec' ! j)) =
              (if j < length (ip cmd) \<and> j < length (dnsserver cmd)
               then Split (dnsserver cmd ! j) (CHR '','')
               else DnsServerList (Adapter (NicSettingMap spec ! j)))"
      using nth w by (simp add: set_nic_DnsServerList)
  }
qed

theorem dns_server_lists_witness:
  "(case customize_spec (Register\<lparr>ip := [''10.0.0.5''], dnsserver := [''8.8.8.8,8.8.4.4'']\<rparr>)
           ''linux'' linux_template of
      (log, Inr spec') \<Rightarrow>
        DnsServerList_global (GlobalIPSettings spec') = [''1.1.1.1'', ''8.8.8.8'', ''8.8.4.4''] \<and>
        map (\<lambda>nic. DnsServerList (Adapter nic)) (NicSettingMap spec') = [[''9.9.9.9'']]
    | (log, Inl a) \<Rightarrow> False) \<and>
   (case customize_spec
           (Register\<lparr>ip := [''dhcp'', ''10.0.0.5''], dnsserver := [''8.8.8.8,8.8.4.4''],
              netmask := [''255.255.255.0''], gateway := [''10.0.0.1,10.0.0.2''],
              mac := [''00:50:56:be:dd:f8''], kind := ''Windows''\<rparr>) []
           \<lparr> Identity = Sysprep new_sysprep, GlobalIPSettings = \<lparr> DnsServerList_global = [] \<rparr>,
             NicSettingMap = [new_adapter_mapping, new_adapter_mapping] \<rparr> of
      (log, Inr spec') \<Rightarrow>
        DnsServerList_global (GlobalIPSettings spec') = [] \<and>
        map (\<lambda>nic. DnsServerList (Adapter nic)) (NicSettingMap spec') =
          [[''8.8.8.8'', ''8.8.4.4''], []]
    | (log, Inl a) \<Rightarrow> False)"
  using
    dns_server_lists [of "Register\<lparr>ip := [''10.0.0.5''], dnsserver := [''8.8.8.8,8.8.4.4'']\<rparr>"
      "GlobalIPSettings linux_template" "''linux''" linux_template]
    dns_server_lists [of
      "Register\<lparr>ip := [''dhcp'', ''10.0.0.5''], dnsserver := [''8.8.8.8,8.8.4.4''],
              netmask := [''255.255.255.0''], gateway := [''10.0.0.1,10.0.0.2''],
              mac := [''00:50:56:be:dd:f8''], kind := ''Windows''\<rparr>"
      "\<lparr> DnsServerList_global = [] \<rparr>" "[]"
      "\<lparr> Identity = Sysprep new_sysprep, GlobalIPSettings = \<lparr> DnsServerList_global = [] \<rparr>,
             NicSettingMap = [new_adapter_mapping, new_adapter_mapping] \<rparr>"]
  by (simp add: sample_dns_linux sample_dns_windows)

text \<open>
  C4. \<^verbatim>\<open>-auto-login 4294967297\<close> with \<^verbatim>\<open>-type Windows\<close> and no NAME: the specification
  submitted has auto-logon switched on with a count of 1, not the number given, since
  \<^verbatim>\<open>int32(cmd.alc)\<close> keeps the low 32 bits only.
\<close>

theorem auto_login_count_wraps:
  "sint (alc (Register\<lparr>kind := ''Windows'', alc := 4294967297\<rparr>)) = 4294967297 \<and>
   Run sample_env (Register\<lparr>kind := ''Windows'', alc := 4294967297\<rparr>) [] =
     ([Call_Customize
         \<lparr> Identity = Sysprep (new_sysprep\<lparr>GuiUnattended :=
               \<lparr> AutoLogon = True, AutoLogonCount = 1, TimeZone = 0 \<rparr>\<rparr>),
           GlobalIPSettings = \<lparr> DnsServerList_global = [] \<rparr>, NicSettingMap = [] \<rparr>,
       Call_Wait 7],
      Returned None)"
  by (simp add: Run_defs settings_defs sample_defs)

text \<open>
  C5. A non-empty \<^verbatim>\<open>-tz\<close> with a sysprep identity goes through
  \<^verbatim>\<open>strconv.ParseInt(tz, 16, 32)\<close>: when that fails, nothing is submitted and (the count
  check having passed) \<^verbatim>\<open>Run\<close> returns \<^verbatim>\<open>converting -tz=%q: %s\<close> built from the value and
  the parse error; when it yields \<open>v\<close>, the customized sysprep time zone, read as a
  signed 32-bit number, is \<open>v\<close>. With a Linux-prep identity the value is written to the
  Linux time zone as it is, whatever it looks like.
\<close>

theorem time_zone:
  assumes tz: "tz cmd \<noteq> []"
  shows "(\<forall>s err. Identity spec = Sysprep s \<longrightarrow> ParseInt (tz cmd) 16 32 = Inl err \<longrightarrow>
            (length (ip cmd) \<le> length (NicSettingMap spec) \<longrightarrow>
               customize_spec cmd name spec =
                 ([], Inl (Fail (Errorf ''converting -tz=%q: %s''
                    [ArgString (tz cmd), ArgError err])))) \<and>
            (\<forall>e vm log1. VirtualMachine e = Inr (Some vm) \<longrightarrow>
               resolve_spec e cmd name = (log1, Inr spec) \<longrightarrow>
               submitted (fst (Run e cmd name)) = [] \<and>
               (length (ip cmd) \<le> length (NicSettingMap spec) \<longrightarrow>
                  Run e cmd name =
                    (log1, Returned (Some (Errorf ''converting -tz=%q: %s''
                       [ArgString (tz cmd), ArgError err])))))) \<and>
         (\<forall>s v. Identity spec = Sysprep s \<longrightarrow> ParseInt (tz cmd) 16 32 = Inr v \<longrightarrow>
            length (ip cmd) \<le> length (NicSettingMap spec) \<longrightarrow>
            (\<exists>log spec' s'. customize_spec cmd name spec = (log, Inr spec') \<and>
               Identity spec' = Sysprep s' \<and> sint (TimeZone (GuiUnattended s')) = v)) \<and>
         (\<forall>l. Identity spec = LinuxPrep l \<longrightarrow>
            set_tz cmd (LinuxPrep l) = Inr (LinuxPrep (l\<lparr>TimeZone_linux := tz cmd\<rparr>)) \<and>
            (length (ip cmd) \<le> length (NicSettingMap spec) \<longrightarrow> alc cmd = 0 \<longrightarrow>
               (\<exists>log spec' l'. customize_spec cmd name spec = (log, Inr spec') \<and>
                  Identity spec' = LinuxPrep l' \<and> TimeZone_linux l' = tz cmd)))"
proof (intro conjI allI impI)
  fix s err
  assume idn: "Identity spec = Sysprep s" and p: "ParseInt (tz cmd) 16 32 = Inl err"
  let ?err = "Errorf ''converting -tz=%q: %s'' [ArgString (tz cmd), ArgError err]"
  have gs: "general_settings cmd spec = Inl (Fail ?err)"
    using tz p by (simp add: general_settings_Sysprep [OF idn] Let_def)
  {
    assume le: "length (ip cmd) \<le> length (NicSettingMap spec)"
    show "customize_spec cmd name spec = ([], Inl (Fail ?err))"
      using customize_spec_settings [OF le gs] .
  }
  fix e vm log1
  assume vm: "VirtualMachine e = Inr (Some vm)"
    and rs: "resolve_spec e cmd name = (log1, Inr spec)"
  from customize_spec_fails [OF gs, of name] obtain a'
    where "customize_spec cmd name spec = ([], Inl a')" ..
  from Run_no_submission [OF vm rs this]
  show "submitted (fst (Run e cmd name)) = []" .
  {
    assume le: "length (ip cmd) \<le> length (NicSettingMap spec)"
    from Run_Fail [OF vm rs customize_spec_settings [OF le gs]]
    show "Run e cmd name = (log1, Returned (Some ?err))" by simp
  }
next
  fix s v
  assume idn: "Identity spec = Sysprep s" and p: "ParseInt (tz cmd) 16 32 = Inr v"
    and le: "length (ip cmd) \<le> length (NicSettingMap spec)"
  from ParseInt_range [OF p] have r: "- (2 ^ 31) \<le> v" "v < 2 ^ 31" by simp_all
  obtain spec1 s1 where gs: "general_settings cmd spec = Inr spec1"
    and i1: "Identity spec1 = Sysprep s1" and t: "TimeZone (GuiUnattended s1) = word_of_int v"
    using tz p by (simp add: general_settings_Sysprep [OF idn] Let_def)
  from customize_spec_loop [OF le gs, of name] i1 t sint_TimeZone [OF r]
  show "\<exists>log spec' s'. customize_spec cmd name spec = (log, Inr spec') \<and>
               Identity spec' = Sysprep s' \<and> sint (TimeZone (GuiUnattended s')) = v"
    by auto
next
  fix l
  show "set_tz cmd (LinuxPrep l) = Inr (LinuxPrep (l\<lparr>TimeZone_linux := tz cmd\<rparr>))"
    using tz by (simp add: set_tz_def)
  assume idn: "Identity spec = LinuxPrep l"
    and le: "length (ip cmd) \<le> length (NicSettingMap spec)" and alc: "alc cmd = 0"
  obtain spec1 l1 where gs: "general_settings cmd spec = Inr spec1"
    and i1: "Identity spec1 = LinuxPrep l1" and t: "TimeZone_linux l1 = tz cmd"
    using tz alc by (simp add: general_settings_LinuxPrep [OF idn])
  from customize_spec_loop [OF le gs, of name] i1 t
  show "\<exists>log spec' l'. customize_spec cmd name spec = (log, Inr spec') \<and>
                  Identity spec' = LinuxPrep l' \<and> TimeZone_linux l' = tz cmd"
    by auto
qed

theorem time_zone_witness:
  "Run sample_env (Register\<lparr>tz := ''ZZZ''\<rparr>) ''windows'' =
     ([Call_DoesCustomizationSpecExist ''windows'', Call_GetCustomizationSpec ''windows''],
      Returned (Some (Errorf ''converting -tz=%q: %s''
        [ArgString ''ZZZ'', ArgError (NumError ''ParseInt'' ''ZZZ'' ErrSyntax)]))) \<and>
   Run sample_env (Register\<lparr>tz := ''80000000''\<rparr>) ''windows'' =
     ([Call_DoesCustomizationSpecExist ''windows'', Call_GetCustomizationSpec ''windows''],
      Returned (Some (Errorf ''converting -tz=%q: %s''
        [ArgString ''80000000'', ArgError (NumError ''ParseInt'' ''80000000'' ErrRange)]))) \<and>
   (case customize_spec (Register\<lparr>tz := ''-1F''\<rparr>) ''windows'' windows_template of
      (log, Inr spec') \<Rightarrow>
        (case Identity spec' of
           Sysprep s' \<Rightarrow> sint (TimeZone (GuiUnattended s')) = - 31
         | _ \<Rightarrow> False)
    | (log, Inl a) \<Rightarrow> False) \<and>
   (case customize_spec (Register\<lparr>tz := ''America/New_York''\<rparr>) ''linux'' linux_template of
      (log, Inr spec') \<Rightarrow>
        (case Identity spec' of
           LinuxPrep l' \<Rightarrow> TimeZone_linux l' = ''America/New_York''
         | _ \<Rightarrow> False)
    | (log, Inl a) \<Rightarrow> False)"
proof -
  have w: "Identity windows_template = Sysprep new_sysprep"
    and l: "Identity linux_template =
      LinuxPrep \<lparr> HostName = Some CustomizationOtherName, Domain_linux = ''corp.example'',
        TimeZone_linux = ''UTC'' \<rparr>"
    by (simp_all add: sample_defs)
  have n: "length (ip Register) \<le> length (NicSettingMap windows_template)"
    "length (ip Register) \<le> length (NicSettingMap linux_template)"
    by (simp_all add: sample_defs)
  have t1: "tz (Register\<lparr>tz := ''ZZZ''\<rparr>) \<noteq> []" and t2: "tz (Register\<lparr>tz := ''80000000''\<rparr>) \<noteq> []"
    and t3: "tz (Register\<lparr>tz := ''-1F''\<rparr>) \<noteq> []"
    and t4: "tz (Register\<lparr>tz := ''America/New_York''\<rparr>) \<noteq> []"
    by simp_all
  from time_zone [OF t1, of windows_template "''windows''"] w n sample_ParseInt(1)
    sample_vm sample_resolve_windows [of "Register\<lparr>tz := ''ZZZ''\<rparr>"]
  have 1: "Run sample_env (Register\<lparr>tz := ''ZZZ''\<rparr>) ''windows'' =
     ([Call_DoesCustomizationSpecExist ''windows'', Call_GetCustomizationSpec ''windows''],
      Returned (Some (Errorf ''converting -tz=%q: %s''
        [ArgString ''ZZZ'', ArgError (NumError ''ParseInt'' ''ZZZ'' ErrSyntax)])))"
    by simp
  from time_zone [OF t2, of windows_template "''windows''"] w n sample_ParseInt(2)
    sample_vm sample_resolve_windows [of "Register\<lparr>tz := ''80000000''\<rparr>"]
  have 2: "Run sample_env (Register\<lparr>tz := ''80000000''\<rparr>) ''windows'' =
     ([Call_DoesCustomizationSpecExist ''windows'', Call_GetCustomizationSpec ''windows''],
      Returned (Some (Errorf ''converting -tz=%q: %s''
        [ArgString ''80000000'', ArgError (NumError ''ParseInt'' ''80000000'' ErrRange)])))"
    by simp
  from time_zone [OF t3, of windows_template "''windows''"] w n sample_ParseInt(3)
  obtain log spec' s' where
    "customize_spec (Register\<lparr>tz := ''-1F''\<rparr>) ''windows'' windows_template = (log, Inr spec')"
    "Identity spec' = Sysprep s'" "sint (TimeZone (GuiUnattended s')) = - 31"
    by auto
  then have 3: "(case customize_spec (Register\<lparr>tz := ''-1F''\<rparr>) ''windows'' windows_template of
      (log, Inr spec') \<Rightarrow>
        (case Identity spec' of
           Sysprep s' \<Rightarrow> sint (TimeZone (GuiUnattended s')) = - 31
         | _ \<Rightarrow> False)
    | (log, Inl a) \<Rightarrow> False)"
    by simp
  have a: "alc (Register\<lparr>tz := ''America/New_York''\<rparr>) = 0" by (simp add: Register_def)
  from time_zone [OF t4, of linux_template "''linux''"] l n a
  obtain log spec' l' where
    "customize_spec (Register\<lparr>tz := ''America/New_York''\<rparr>) ''linux'' linux_template =
       (log, Inr spec')"
    "Identity spec' = LinuxPrep l'" "TimeZone_linux l' = ''America/New_York''"
    by auto
  then have 4: "(case customize_spec (Register\<lparr>tz := ''America/New_York''\<rparr>) ''linux''
        linux_template of
      (log, Inr spec') \<Rightarrow>
        (case Identity spec' of
           LinuxPrep l' \<Rightarrow> TimeZone_linux l' = ''America/New_York''
         | _ \<Rightarrow> False)
    | (log, Inl a) \<Rightarrow> False)"
    by simp
  from 1 2 3 4 show ?thesis by (intro conjI)
qed

text \<open>
  C6. The loop body sets the address generator of its adapter to the DHCP generator,
  which holds no address, when the \<^verbatim>\<open>-ip\<close> value is the string \<^verbatim>\<open>dhcp\<close>, and to a fixed
  address holding exactly that string otherwise; in the customized specification this
  holds of adapter \<open>j\<close> and the \<open>j\<close>-th \<^verbatim>\<open>-ip\<close> value, for every \<open>j\<close> below their number.
\<close>

theorem ip_generator:
  "Ip (Adapter (set_nic cmd w i ipv nic)) =
     Some (if ipv = ''dhcp'' then CustomizationDhcpIpGenerator else CustomizationFixedIp ipv) \<and>
   (customize_spec cmd name spec = (log, Inr spec') \<longrightarrow>
      (\<forall>j<length (ip cmd).
         Ip (Adapter (NicSettingMap spec' ! j)) =
           Some (if ip cmd ! j = ''dhcp'' then CustomizationDhcpIpGenerator
                 else CustomizationFixedIp (ip cmd ! j))))"
proof (intro conjI impI allI)
  show "Ip (Adapter (set_nic cmd w i ipv nic)) =
     Some (if ipv = ''dhcp'' then CustomizationDhcpIpGenerator else CustomizationFixedIp ipv)"
    by (rule set_nic_Ip)
next
  fix j
  assume cs: "customize_spec cmd name spec = (log, Inr spec')" and j: "j < length (ip cmd)"
  from customize_spec_Inr [OF cs] j
  have "NicSettingMap spec' ! j =
          set_nic cmd (isWindows (Identity spec)) j (ip cmd ! j) (NicSettingMap spec ! j)"
    by simp
  then show "Ip (Adapter (NicSettingMap spec' ! j)) =
           Some (if ip cmd ! j = ''dhcp'' then CustomizationDhcpIpGenerator
                 else CustomizationFixedIp (ip cmd ! j))"
    by (simp add: set_nic_Ip)
qed

theorem ip_generator_witness:
  "(case customize_spec
           (Register\<lparr>ip := [''dhcp'', ''10.0.0.5''], dnsserver := [''8.8.8.8,8.8.4.4''],
              netmask := [''255.255.255.0''], gateway := [''10.0.0.1,10.0.0.2''],
              mac := [''00:50:56:be:dd:f8''], kind := ''Windows''\<rparr>) []
           \<lparr> Identity = Sysprep new_sysprep, GlobalIPSettings = \<lparr> DnsServerList_global = [] \<rparr>,
             NicSettingMap = [new_adapter_mapping, new_adapter_mapping] \<rparr> of
      (log, Inr spec') \<Rightarrow>
        map (\<lambda>nic. Ip (Adapter nic)) (NicSettingMap spec') =
          [Some CustomizationDhcpIpGenerator, Some (CustomizationFixedIp ''10.0.0.5'')]
    | (log, Inl a) \<Rightarrow> False)"
  using ip_generator [of
      "Register\<lparr>ip := [''dhcp'', ''10.0.0.5''], dnsserver := [''8.8.8.8,8.8.4.4''],
              netmask := [''255.255.255.0''], gateway := [''10.0.0.1,10.0.0.2''],
              mac := [''00:50:56:be:dd:f8''], kind := ''Windows''\<rparr>" True 0 "''dhcp''"
      new_adapter_mapping "[]"
      "\<lparr> Identity = Sysprep new_sysprep, GlobalIPSettings = \<lparr> DnsServerList_global = [] \<rparr>,
             NicSettingMap = [new_adapter_mapping, new_adapter_mapping] \<rparr>"]
  by (simp add: sample_dns_windows)

text \<open>
  C7. With a NAME argument that the manager reports as not existing, \<^verbatim>\<open>Run\<close> returns the
  error \<^verbatim>\<open>specification %q does not exist\<close> built from the name, and the only thing it
  has done is the existence check: no specification fetched, no adapter written, nothing
  submitted. An error of the existence check or of the fetch is returned as it is.
\<close>

theorem missing_specification:
  assumes vm: "VirtualMachine e = Inr (Some vm)" and name: "name \<noteq> []"
  shows "(DoesCustomizationSpecExist e name = Inr False \<longrightarrow>
            Run e cmd name =
              ([Call_DoesCustomizationSpecExist name],
               Returned (Some (Errorf ''specification %q does not exist'' [ArgString name])))) \<and>
         (\<forall>err. DoesCustomizationSpecExist e name = Inl err \<longrightarrow>
            Run e cmd name = ([Call_DoesCustomizationSpecExist name], Returned (Some err))) \<and>
         (\<forall>err. DoesCustomizationSpecExist e name = Inr True \<longrightarrow>
            GetCustomizationSpec e name = Inl err \<longrightarrow>
            Run e cmd name =
              ([Call_DoesCustomizationSpecExist name, Call_GetCustomizationSpec name],
               Returned (Some err)))"
  using vm name by (simp add: Run_def resolve_spec_def lookup_spec_def)

theorem missing_specification_witness:
  "Run sample_env (Register\<lparr>ip := [''dhcp''], host_Name := ''web01''\<rparr>) ''absent'' =
     ([Call_DoesCustomizationSpecExist ''absent''],
      Returned (Some (Errorf ''specification %q does not exist'' [ArgString ''absent'']))) \<and>
   Run sample_env (Register\<lparr>ip := [''dhcp'']\<rparr>) ''unreachable'' =
     ([Call_DoesCustomizationSpecExist ''unreachable''],
      Returned (Some (LibraryError ''connection reset''))) \<and>
   Run sample_env (Register\<lparr>ip := [''dhcp'']\<rparr>) ''vanishing'' =
     ([Call_DoesCustomizationSpecExist ''vanishing'', Call_GetCustomizationSpec ''vanishing''],
      Returned (Some (LibraryError ''not found'')))"
  using missing_specification [OF sample_vm, of "''absent''"
      "Register\<lparr>ip := [''dhcp''], host_Name := ''web01''\<rparr>"]
    missing_specification [OF sample_vm, of "''unreachable''" "Register\<lparr>ip := [''dhcp'']\<rparr>"]
    missing_specification [OF sample_vm, of "''vanishing''" "Register\<lparr>ip := [''dhcp'']\<rparr>"]
  by (simp add: sample_env_def)

text \<open>
  C8. For every \<open>j\<close> below the number of \<^verbatim>\<open>-ip\<close> values, the netmask, the MAC address
  and the gateway list of adapter \<open>j\<close> are the \<open>j\<close>-th \<^verbatim>\<open>-netmask\<close>, the \<open>j\<close>-th \<^verbatim>\<open>-mac\<close>
  and the split \<open>j\<close>-th \<^verbatim>\<open>-gateway\<close> value where the list has a \<open>j\<close>-th entry, and are
  what they were before where it has none. Adapters from the number of \<^verbatim>\<open>-ip\<close> values on
  are not changed at all.
\<close>

theorem adapter_fields:
  "SubnetMask (Adapter (set_nic cmd w i ipv nic)) =
     (if i < length (netmask cmd) then netmask cmd ! i else SubnetMask (Adapter nic)) \<and>
   MacAddress (set_nic cmd w i ipv nic) =
     (if i < length (mac cmd) then mac cmd ! i else MacAddress nic) \<and>
   Gateway (Adapter (set_nic cmd w i ipv nic)) =
     (if i < length (gateway cmd) then Split (gateway cmd ! i) (CHR '','')
      else Gateway (Adapter nic)) \<and>
   (customize_spec cmd name spec = (log, Inr spec') \<longrightarrow>
      length (NicSettingMap spec') = length (NicSettingMap spec) \<and>
      length (ip cmd) \<le> length (NicSettingMap spec) \<and>
      (\<forall>j<length (ip cmd).
         SubnetMask (Adapter (NicSettingMap spec' ! j)) =
           (if j < length (netmask cmd) then netmask cmd ! j
            else SubnetMask (Adapter (NicSettingMap spec ! j))) \<and>
         MacAddress (NicSettingMap spec' ! j) =
           (if j < length (mac cmd) then mac cmd ! j else MacAddress (NicSettingMap spec ! j)) \<and>
         Gateway (Adapter (NicSettingMap spec' ! j)) =
           (if j < length (gateway cmd) then Split (gateway cmd ! j) (CHR '','')
            else Gateway (Adapter (NicSettingMap spec ! j)))) \<and>
      (\<forall>j<length (NicSettingMap spec).
         length (ip cmd) \<le> j \<longrightarrow> NicSettingMap spec' ! j = NicSettingMap spec ! j))"
proof (intro conjI impI)
  show "SubnetMask (Adapter (set_nic cmd w i ipv nic)) =
     (if i < length (netmask cmd) then netmask cmd ! i else SubnetMask (Adapter nic))"
    by (rule set_nic_SubnetMask)
  show "MacAddress (set_nic cmd w i ipv nic) =
     (if i < length (mac cmd) then mac cmd ! i else MacAddress nic)"
    by (rule set_nic_MacAddress)
  show "Gateway (Adapter (set_nic cmd w i ipv nic)) =
     (if i < length (gateway cmd) then Split (gateway cmd ! i) (CHR '','')
      else Gateway (Adapter nic))"
    by (rule set_nic_Gateway)
next
  assume cs: "customize_spec cmd name spec = (log, Inr spec')"
  note inv = customize_spec_Inr [OF cs]
  from inv show "length (NicSettingMap spec') = length (NicSettingMap spec)"
    and le: "length (ip cmd) \<le> length (NicSettingMap spec)"
    by simp_all
  from inv have nth: "\<And>j. j < length (NicSettingMap spec) \<Longrightarrow> NicSettingMap spec' ! j =
            (if j < length (ip cmd)
             then set_nic cmd (isWindows (Identity spec)) j (ip cmd ! j) (NicSettingMap spec ! j)
             else NicSettingMap spec ! j)"
    by blast
  show "\<forall>j<length (ip cmd).
         SubnetMask (Adapter (NicSettingMap spec' ! j)) =
           (if j < length (netmask cmd) then netmask cmd ! j
            else SubnetMask (Adapter (NicSettingMap spec ! j))) \<and>
         MacAddress (NicSettingMap spec' ! j) =
           (if j < length (mac cmd) then mac cmd ! j else MacAddress (NicSettingMap spec ! j)) \<and>
         Gateway (Adapter (NicSettingMap spec' ! j)) =
           (if j < length (gateway cmd) then Split (gateway cmd ! j) (CHR '','')
            else Gateway (Adapter (NicSettingMap spec ! j)))"
  proof (intro allI impI)
    fix j assume j: "j < length (ip cmd)"
    with le have "j < length (NicSettingMap spec)" by simp
    from nth [OF this] j
    have "NicSettingMap spec' ! j =
            set_nic cmd (isWindows (Identity spec)) j (ip cmd ! j) (NicSettingMap spec ! j)"
      by simp
    then show "SubnetMask (Adapter (NicSettingMap spec' ! j)) =
           (if j < length (netmask cmd) then netmask cmd ! j
            else SubnetMask (Adapter (NicSettingMap spec ! j))) \<and>
         MacAddress (NicSettingMap spec' ! j) =
           (if j < length (mac cmd) then mac cmd ! j else MacAddress (NicSettingMap spec ! j)) \<and>
         Gateway (Adapter (NicSettingMap spec' ! j)) =
           (if j < length (gateway cmd) then Split (gateway cmd ! j) (CHR '','')
            else Gateway (Adapter (NicSettingMap spec ! j)))"
      by (simp only: set_nic_SubnetMask set_nic_MacAddress set_nic_Gateway)
  qed
  show "\<forall>j<length (NicSettingMap spec).
         length (ip cmd) \<le> j \<longrightarrow> NicSettingMap spec' ! j = NicSettingMap spec ! j"
    using nth by simp
qed

theorem adapter_fields_witness:
  "(case customize_spec
      (Register\<lparr>ip := [''10.0.0.5'', ''10.0.0.6''], netmask := [''255.255.255.0''],
         gateway := [''10.0.0.1,10.0.0.2'']\<rparr>) ''three''
      (linux_template\<lparr>NicSettingMap :=
         [hd (NicSettingMap linux_template), hd (NicSettingMap linux_template),
          hd (NicSettingMap linux_template)]\<rparr>) of
      (log, Inr spec') \<Rightarrow>
        map (\<lambda>nic. SubnetMask (Adapter nic)) (NicSettingMap spec') =
          [''255.255.255.0'', ''255.255.0.0'', ''255.255.0.0''] \<and>
        map MacAddress (NicSettingMap spec') =
          [''00:50:56:aa:bb:cc'', ''00:50:56:aa:bb:cc'', ''00:50:56:aa:bb:cc''] \<and>
        map (\<lambda>nic. Gateway (Adapter nic)) (NicSettingMap spec') =
          [[''10.0.0.1'', ''10.0.0.2''], [''10.0.0.1''], [''10.0.0.1'']] \<and>
        NicSettingMap spec' ! 2 = hd (NicSettingMap linux_template)
    | (log, Inl a) \<Rightarrow> False)"
  using adapter_fields [of
      "Register\<lparr>ip := [''10.0.0.5'', ''10.0.0.6''], netmask := [''255.255.255.0''],
         gateway := [''10.0.0.1,10.0.0.2'']\<rparr>" False 0 "''10.0.0.5''"
      "hd (NicSettingMap linux_template)" "''three''"
      "linux_template\<lparr>NicSettingMap :=
         [hd (NicSettingMap linux_template), hd (NicSettingMap linux_template),
          hd (NicSettingMap linux_template)]\<rparr>"]
  by (simp add: sample_fields) (simp add: sample_defs)

text \<open>
  C9. On an identity that is neither sysprep nor Linux-prep, each of the four settings
  \<^verbatim>\<open>-domain\<close>, \<^verbatim>\<open>-prefix\<close>, \<^verbatim>\<open>-name\<close> and \<^verbatim>\<open>-tz\<close>, when its flag is given, writes through
  the nil Linux-prep pointer and panics; on a Linux-prep identity none of them panics.
  At the level of \<^verbatim>\<open>Run\<close>: with such an identity and the count check passed, the command
  panics as soon as \<^verbatim>\<open>-domain\<close>, \<^verbatim>\<open>-prefix\<close> or \<^verbatim>\<open>-name\<close> is given, or \<^verbatim>\<open>-tz\<close> is given
  and \<^verbatim>\<open>-auto-login\<close> is zero. Only a named specification can have such an identity.
\<close>

theorem nil_linux_prep:
  "(domain cmd \<noteq> [] \<longrightarrow> set_domain cmd OtherIdentity = Inl (Panic NilPointerDereference)) \<and>
   (prefix_Base cmd \<noteq> [] \<longrightarrow> set_prefix cmd OtherIdentity = Inl (Panic NilPointerDereference)) \<and>
   (host_Name cmd \<noteq> [] \<longrightarrow> set_host cmd OtherIdentity = Inl (Panic NilPointerDereference)) \<and>
   (tz cmd \<noteq> [] \<longrightarrow> set_tz cmd OtherIdentity = Inl (Panic NilPointerDereference)) \<and>
   (\<forall>l p. set_domain cmd (LinuxPrep l) \<noteq> Inl (Panic p) \<and>
      set_prefix cmd (LinuxPrep l) \<noteq> Inl (Panic p) \<and>
      set_host cmd (LinuxPrep l) \<noteq> Inl (Panic p) \<and>
      set_tz cmd (LinuxPrep l) \<noteq> Inl (Panic p)) \<and>
   (VirtualMachine e = Inr (Some vm) \<longrightarrow> resolve_spec e cmd name = (log1, Inr spec) \<longrightarrow>
    Identity spec = OtherIdentity \<longrightarrow> length (ip cmd) \<le> length (NicSettingMap spec) \<longrightarrow>
    domain cmd \<noteq> [] \<or> prefix_Base cmd \<noteq> [] \<or> host_Name cmd \<noteq> [] \<or>
      (tz cmd \<noteq> [] \<and> alc cmd = 0) \<longrightarrow>
    Run e cmd name = (log1, Panicked NilPointerDereference)) \<and>
   (resolve_spec e cmd [] = (log1, Inr spec) \<longrightarrow> Identity spec \<noteq> OtherIdentity)"
proof (intro conjI impI allI)
  assume vm: "VirtualMachine e = Inr (Some vm)"
    and rs: "resolve_spec e cmd name = (log1, Inr spec)"
    and idn: "Identity spec = OtherIdentity"
    and le: "length (ip cmd) \<le> length (NicSettingMap spec)"
    and flags: "domain cmd \<noteq> [] \<or> prefix_Base cmd \<noteq> [] \<or> host_Name cmd \<noteq> [] \<or>
      (tz cmd \<noteq> [] \<and> alc cmd = 0)"
  from flags have "general_settings cmd spec = Inl (Panic NilPointerDereference)"
    by (auto simp: general_settings_OtherIdentity [OF idn])
  from Run_Panic [OF vm rs customize_spec_settings [OF le this]]
  show "Run e cmd name = (log1, Panicked NilPointerDereference)" by simp
next
  assume "resolve_spec e cmd [] = (log1, Inr spec)"
  then show "Identity spec \<noteq> OtherIdentity"
    by (auto simp: resolve_spec_def new_spec_def Let_def split: if_splits)
qed (simp_all add: set_domain_def set_prefix_def set_host_def set_tz_def)

theorem nil_linux_prep_witness:
  "Run sample_env (Register\<lparr>tz := ''America/New_York''\<rparr>) ''other'' =
     ([Call_DoesCustomizationSpecExist ''other'', Call_GetCustomizationSpec ''other''],
      Panicked NilPointerDereference) \<and>
   Run sample_env (Register\<lparr>prefix_Base := ''demo''\<rparr>) ''other'' =
     ([Call_DoesCustomizationSpecExist ''other'', Call_GetCustomizationSpec ''other''],
      Panicked NilPointerDereference) \<and>
   set_domain (Register\<lparr>domain := ''corp.example''\<rparr>) OtherIdentity =
     Inl (Panic NilPointerDereference) \<and>
   set_host (Register\<lparr>host_Name := ''web01''\<rparr>) OtherIdentity =
     Inl (Panic NilPointerDereference)"
  using nil_linux_prep [of "Register\<lparr>tz := ''America/New_York''\<rparr>" sample_env 0 "''other''"
      "[Call_DoesCustomizationSpecExist ''other'', Call_GetCustomizationSpec ''other'']"
      other_template]
    nil_linux_prep [of "Register\<lparr>prefix_Base := ''demo''\<rparr>" sample_env 0 "''other''"
      "[Call_DoesCustomizationSpecExist ''other'', Call_GetCustomizationSpec ''other'']"
      other_template]
    nil_linux_prep [of "Register\<lparr>domain := ''corp.example''\<rparr>"]
    nil_linux_prep [of "Register\<lparr>host_Name := ''web01''\<rparr>"]
  by (simp add: sample_vm sample_resolve_other) (simp add: sample_defs)

text \<open>
  C10. When \<^verbatim>\<open>-name\<close> is given, the value of \<^verbatim>\<open>-prefix\<close> changes nothing about what
  \<^verbatim>\<open>Run\<close> does: the host name is assigned after the prefix generator, to the same field
  (the sysprep computer name or the Linux-prep host name), so the customized
  specification holds the fixed name.
\<close>

theorem host_name_precedence:
  assumes host: "host_Name cmd \<noteq> []"
  shows "Run e (cmd\<lparr>prefix_Base := p\<rparr>) name = Run e cmd name \<and>
         (\<forall>idn idn'. set_prefix cmd idn = Inr idn' \<longrightarrow> set_host cmd idn' = set_host cmd idn) \<and>
         (\<forall>log spec'. customize_spec cmd name spec = (log, Inr spec') \<longrightarrow>
            (case Identity spec' of
               Sysprep s \<Rightarrow>
                 ComputerName (UserData s) = Some (CustomizationFixedName (host_Name cmd))
             | LinuxPrep l \<Rightarrow> HostName l = Some (CustomizationFixedName (host_Name cmd))
             | OtherIdentity \<Rightarrow> False))"
proof (intro conjI allI impI)
  show "Run e (cmd\<lparr>prefix_Base := p\<rparr>) name = Run e cmd name"
    using host
    by (simp add: Run_def resolve_spec_prefix customize_spec_prefix case_prod_beta
        cong: sum.case_cong option.case_cong)
next
  fix idn idn'
  assume "set_prefix cmd idn = Inr idn'"
  then show "set_host cmd idn' = set_host cmd idn"
    using host by (rule set_host_after_set_prefix)
next
  fix log spec'
  assume cs: "customize_spec cmd name spec = (log, Inr spec')"
  from customize_spec_Inr [OF cs] obtain spec1 where
    gs: "general_settings cmd spec = Inr spec1" and i: "Identity spec' = Identity spec1"
    by blast
  show "case Identity spec' of
          Sysprep s \<Rightarrow> ComputerName (UserData s) = Some (CustomizationFixedName (host_Name cmd))
        | LinuxPrep l \<Rightarrow> HostName l = Some (CustomizationFixedName (host_Name cmd))
        | OtherIdentity \<Rightarrow> False"
  proof (cases "Identity spec")
    case (Sysprep s)
    from gs host show ?thesis
      by (auto simp: i general_settings_Sysprep [OF Sysprep] Let_def split: if_splits sum.splits)
  next
    case (LinuxPrep l)
    from gs host show ?thesis
      by (auto simp: i general_settings_LinuxPrep [OF LinuxPrep] split: if_splits)
  next
    case OtherIdentity
    from gs host show ?thesis
      by (simp add: general_settings_OtherIdentity [OF OtherIdentity])
  qed
qed

theorem host_name_precedence_witness:
  "Run sample_env (Register\<lparr>host_Name := ''web01'', prefix_Base := ''demo''\<rparr>) ''linux'' =
     ([Call_DoesCustomizationSpecExist ''linux'', Call_GetCustomizationSpec ''linux'',
       Call_Customize (linux_template\<lparr>Identity :=
         LinuxPrep \<lparr> HostName = Some (CustomizationFixedName ''web01''),
           Domain_linux = ''corp.example'', TimeZone_linux = ''UTC'' \<rparr>\<rparr>),
       Call_Wait 7],
      Returned None)"
proof -
  have h: "host_Name (Register\<lparr>host_Name := ''web01''\<rparr>) \<noteq> []" by simp
  have "Register\<lparr>host_Name := ''web01'', prefix_Base := ''demo''\<rparr> =
          Register\<lparr>host_Name := ''web01''\<rparr>\<lparr>prefix_Base := ''demo''\<rparr>"
    by simp
  with host_name_precedence [OF h, of sample_env "''demo''" "''linux''"] sample_host_linux
  show ?thesis by simp
qed

end
